theory Spec2Isabelle
  imports Main "HOL-Library.Word"
begin

section \<open>The cluster-join retry controllers of the agent\<close>

text \<open>
  The agent starts two background tasks, \<open>retryJoin\<close> (LAN) and \<open>retryJoinWan\<close> (WAN).
  Each one calls a join operation of the cluster membership layer in a \<open>for\<close> loop until
  the join succeeds or the configured number of attempts is exceeded, in which case an
  error is sent on the channel \<open>retryJoinCh\<close>.

  Everything the two functions do beyond computing is an effect: log lines, calls of
  \<open>discover.Addrs\<close>, \<open>JoinLAN\<close> and \<open>JoinWAN\<close>, the channel send and \<open>time.Sleep\<close>. The model
  makes the effects explicit as a trace of events, in program order. The answers of the
  outside world (discovery and the join operations) are oracles which may answer
  differently in every iteration of the loop.

  Not in the model: how long a sleep or a call takes, whether the send on \<open>retryJoinCh\<close>
  blocks until the owner of the agent receives, and what \<open>discover.Addrs\<close> itself writes
  to the logger it is given. The two controllers share nothing but the configuration,
  which they only read, so each is modelled on its own.
\<close>

subsection \<open>Data\<close>

text \<open>
  A Go \<open>error\<close> is observed only through \<open>== nil\<close> and through its message when it is
  printed; the interface value is an \<open>error option\<close> with \<open>None\<close> for \<open>nil\<close>.
  \<open>time.Duration\<close> is an \<open>int64\<close>. Go's \<open>int\<close> (the attempt counter, the configured
  maxima, the peer count) is 32 or 64 bits wide depending on the platform: the data types
  take it as the parameter \<open>'i\<close>, and the functions use a word \<open>'w word\<close> of any length
  for it, compared as a signed number, so that \<open>attempt++\<close> wraps.
\<close>

type_synonym error = string
type_synonym duration = "64 word"

record 'i config =
  RetryJoin :: "string list"
  RetryJoinWan :: "string list"
  RetryInterval :: duration
  RetryIntervalWan :: duration
  RetryMaxAttempts :: 'i
  RetryMaxAttemptsWan :: 'i

text \<open>
  The outside world. \<open>discoverAddrs\<close> is \<open>discover.Addrs\<close> of go-discover, \<open>JoinLAN\<close> and
  \<open>JoinWAN\<close> are the agent's join entry points. Each returns a Go pair \<open>(value, err)\<close>.
  The first argument is the number of the loop iteration that makes the call (from 0),
  so that an oracle can fail for a while and succeed later.
\<close>

record 'i env =
  discoverAddrs :: "nat \<Rightarrow> string \<Rightarrow> string list \<times> error option"
  JoinLAN :: "nat \<Rightarrow> string list \<Rightarrow> 'i \<times> error option"
  JoinWAN :: "nat \<Rightarrow> string list \<Rightarrow> 'i \<times> error option"

text \<open>The arguments of a \<open>Printf\<close> call, and the observable events of a controller.\<close>

datatype 'i arg =
    ErrArg "error option"
  | IntArg 'i
  | StrsArg "string list"
  | DurArg duration

datatype 'i event =
    Printf string "'i arg list"   \<comment> \<open>\<open>a.logger.Printf(format, args...)\<close>\<close>
  | DiscoverCall string           \<comment> \<open>\<open>discover.Addrs(disco, a.logger)\<close>\<close>
  | JoinLANCall "string list"     \<comment> \<open>\<open>a.JoinLAN(servers)\<close>\<close>
  | JoinWANCall "string list"     \<comment> \<open>\<open>a.JoinWAN(cfg.RetryJoinWan)\<close>\<close>
  | ChanSend error                \<comment> \<open>\<open>a.retryJoinCh <- err\<close>\<close>
  | Sleep duration                \<comment> \<open>\<open>time.Sleep(d)\<close>\<close>

text \<open>
  Where a controller is when it is observed: \<open>NotStarted\<close> is the \<open>return\<close> on an empty
  address list, \<open>Succeeded\<close> the \<open>return\<close> after a join without error, \<open>Exhausted\<close> the
  \<open>return\<close> after the channel send, and \<open>Retrying\<close> a controller that is still in its loop
  when the observation ends.
\<close>

datatype state = NotStarted | Retrying | Succeeded | Exhausted

text \<open>One pass through the loop body either returns or goes round with the new counter.\<close>

datatype 'i step = Return state | Continue 'i

subsection \<open>\<open>strings.Contains\<close>\<close>

fun HasPrefix :: "string \<Rightarrow> string \<Rightarrow> bool" where
  "HasPrefix s [] = True"
| "HasPrefix [] (p # ps) = False"
| "HasPrefix (c # cs) (p # ps) = (c = p \<and> HasPrefix cs ps)"

fun Contains :: "string \<Rightarrow> string \<Rightarrow> bool" where
  "Contains [] substr = (substr = [])"
| "Contains (c # cs) substr = (HasPrefix (c # cs) substr \<or> Contains cs substr)"

subsection \<open>Splitting the configured addresses (retryJoin, the first loop)\<close>

text \<open>
  \<^verbatim>\<open>
  var addrs []string
  var disco string
  for _, addr := range cfg.RetryJoin {
      if strings.Contains(addr, "provider=") { disco = addr; continue }
      addrs = append(addrs, addr)
  }
  \<close>
  The loop state is the pair \<open>(addrs, disco)\<close>, which starts as \<open>([], '''')\<close>.
\<close>

fun splitAddrs :: "string list \<Rightarrow> string list \<times> string \<Rightarrow> string list \<times> string" where
  "splitAddrs [] (addrs, disco) = (addrs, disco)"
| "splitAddrs (addr # rest) (addrs, disco) =
     (if Contains addr ''provider='' then splitAddrs rest (addrs, addr)
      else splitAddrs rest (addrs @ [addr], disco))"

subsection \<open>The loop bodies\<close>

text \<open>
  The end of both loop bodies, reached when the iteration did not return with a join:
  \<^verbatim>\<open>
  attempt++
  if max > 0 && attempt > max {
      a.retryJoinCh <- fmt.Errorf(exhausted)
      return
  }
  a.logger.Printf(warn, err, interval)
  time.Sleep(interval)
  \<close>
  The two functions differ in the configuration fields and in the two texts.
\<close>

definition afterFailure ::
  "'w::len word \<Rightarrow> duration \<Rightarrow> string \<Rightarrow> string \<Rightarrow> 'w word \<Rightarrow> error option
     \<Rightarrow> 'w word event list \<times> 'w word step" where
  "afterFailure maxAttempts interval exhausted warn attempt err =
     (let attempt' = attempt + 1 in
      if 0 <s maxAttempts \<and> maxAttempts <s attempt'
      then ([ChanSend exhausted], Return Exhausted)
      else ([Printf warn [ErrArg err, DurArg interval], Sleep interval], Continue attempt'))"

text \<open>
  Lines 33 to 41 of retryJoin: the discovery of one iteration. The result is the value of
  \<open>servers\<close> and of the outer \<open>err\<close> afterwards, with the events. Whatever list
  \<open>discover.Addrs\<close> returns is kept, also next to an error.
\<close>

definition lanDiscover ::
  "'w word env \<Rightarrow> string \<Rightarrow> nat \<Rightarrow> (string list \<times> error option) \<times> 'w word event list" where
  "lanDiscover e disco i =
     (if disco \<noteq> '''' then
        (let (servers, err) = discoverAddrs e i disco in
         ((servers, err),
          [DiscoverCall disco]
          @ (if err \<noteq> None then [Printf ''[ERR] agent: %s'' [ErrArg err]] else [])
          @ [Printf ''[ERR] agent: Discovered servers: %v'' [StrsArg servers]]))
      else (([], None), []))"

text \<open>The list given to the join operation: \<open>servers = append(servers, addrs...)\<close>.\<close>

definition lanServers :: "'w word env \<Rightarrow> string list \<Rightarrow> string \<Rightarrow> nat \<Rightarrow> string list" where
  "lanServers e addrs disco i = fst (fst (lanDiscover e disco i)) @ addrs"

text \<open>
  The body of the loop of retryJoin. In the \<open>else\<close> branch \<open>n, err := a.JoinLAN(servers)\<close>
  declares a new \<open>err\<close> that lives in that block only; the \<open>err\<close> printed by the warning
  is the outer one, which holds the discovery error or the "No servers to join" error.
\<close>

definition lanIteration ::
  "'w::len word env \<Rightarrow> 'w word config \<Rightarrow> string list \<Rightarrow> string \<Rightarrow> nat \<Rightarrow> 'w word
     \<Rightarrow> 'w word event list \<times> 'w word step" where
  "lanIteration e cfg addrs disco i attempt =
     (let ((servers0, err0), devs) = lanDiscover e disco i;
          servers = servers0 @ addrs
      in if servers = [] then
           (let (evs, st) = afterFailure (RetryMaxAttempts cfg) (RetryInterval cfg)
                  ''agent: max join retry exhausted, exiting''
                  ''[WARN] agent: Join failed: %v, retrying in %v''
                  attempt (Some ''No servers to join'')
            in (devs @ evs, st))
         else
           (let (n, jerr) = JoinLAN e i servers in
            if jerr = None then
              (devs @ [JoinLANCall servers,
                       Printf ''[INFO] agent: Join completed. Synced with %d initial agents''
                         [IntArg n]],
               Return Succeeded)
            else
              (let (evs, st) = afterFailure (RetryMaxAttempts cfg) (RetryInterval cfg)
                     ''agent: max join retry exhausted, exiting''
                     ''[WARN] agent: Join failed: %v, retrying in %v''
                     attempt err0
               in (devs @ [JoinLANCall servers] @ evs, st))))"

text \<open>The body of the loop of retryJoinWan: the configured list goes to \<open>JoinWAN\<close> as it is.\<close>

definition wanIteration ::
  "'w::len word env \<Rightarrow> 'w word config \<Rightarrow> nat \<Rightarrow> 'w word
     \<Rightarrow> 'w word event list \<times> 'w word step" where
  "wanIteration e cfg i attempt =
     (let (n, err) = JoinWAN e i (RetryJoinWan cfg) in
      if err = None then
        ([JoinWANCall (RetryJoinWan cfg),
          Printf ''[INFO] agent: Join -wan completed. Synced with %d initial agents''
            [IntArg n]],
         Return Succeeded)
      else
        (let (evs, st) = afterFailure (RetryMaxAttemptsWan cfg) (RetryIntervalWan cfg)
               ''agent: max join -wan retry exhausted, exiting''
               ''[WARN] agent: Join -wan failed: %v, retrying in %v''
               attempt err
         in (JoinWANCall (RetryJoinWan cfg) # evs, st)))"

subsection \<open>The loops and the two controllers\<close>

text \<open>
  \<open>for { body }\<close> has no exit but the \<open>return\<close>s of its body and may run forever. The first
  argument bounds the number of iterations that are observed: when it is used up the
  controller is reported as still \<open>Retrying\<close>, with the trace so far. \<open>i\<close> counts the
  iterations and \<open>attempt\<close> is the variable of that name.
\<close>

fun loop ::
  "(nat \<Rightarrow> 'i \<Rightarrow> 'i event list \<times> 'i step) \<Rightarrow> nat \<Rightarrow> nat \<Rightarrow> 'i
     \<Rightarrow> state \<times> 'i event list" where
  "loop body 0 i attempt = (Retrying, [])"
| "loop body (Suc fuel) i attempt =
     (case body i attempt of
        (evs, Return st) \<Rightarrow> (st, evs)
      | (evs, Continue attempt') \<Rightarrow>
          (let (st, rest) = loop body fuel (Suc i) attempt' in (st, evs @ rest)))"

definition retryJoin ::
  "nat \<Rightarrow> 'w::len word env \<Rightarrow> 'w word config \<Rightarrow> state \<times> 'w word event list" where
  "retryJoin fuel e cfg =
     (if length (RetryJoin cfg) = 0 then (NotStarted, [])
      else
        (let (addrs, disco) = splitAddrs (RetryJoin cfg) ([], '''');
             (st, tr) = loop (lanIteration e cfg addrs disco) fuel 0 0
         in (st, Printf ''[INFO] agent: Joining cluster...'' [] # tr)))"

definition retryJoinWan ::
  "nat \<Rightarrow> 'w::len word env \<Rightarrow> 'w word config \<Rightarrow> state \<times> 'w word event list" where
  "retryJoinWan fuel e cfg =
     (if length (RetryJoinWan cfg) = 0 then (NotStarted, [])
      else
        (let (st, tr) = loop (wanIteration e cfg) fuel 0 0
         in (st, Printf ''[INFO] agent: Joining WAN cluster...'' [] # tr)))"

subsection \<open>Observations on a trace\<close>

fun isJoin :: "'i event \<Rightarrow> bool" where
  "isJoin (JoinLANCall xs) = True"
| "isJoin (JoinWANCall xs) = True"
| "isJoin ev = False"

fun isSend :: "'i event \<Rightarrow> bool" where
  "isSend (ChanSend err) = True"
| "isSend ev = False"

fun isSleep :: "'i event \<Rightarrow> bool" where
  "isSleep (Sleep d) = True"
| "isSleep ev = False"

fun isLog :: "'i event \<Rightarrow> bool" where
  "isLog (Printf f args) = True"
| "isLog ev = False"

definition joinAttempts :: "'i event list \<Rightarrow> nat" where
  "joinAttempts tr = length (filter isJoin tr)"

definition terminalErrors :: "'i event list \<Rightarrow> nat" where
  "terminalErrors tr = length (filter isSend tr)"

definition sleeps :: "'i event list \<Rightarrow> nat" where
  "sleeps tr = length (filter isSleep tr)"

fun isCall :: "'i event \<Rightarrow> bool" where
  "isCall (DiscoverCall d) = True"
| "isCall (JoinLANCall xs) = True"
| "isCall (JoinWANCall xs) = True"
| "isCall ev = False"

text \<open>
  What one pass through a loop body does to the trace, by the way it ends: \<open>okfmt\<close> is the
  format of the line logged after a join, \<open>exmsg\<close> the message sent on the channel and
  \<open>iv\<close> the interval slept.
\<close>

definition regular ::
  "string \<Rightarrow> error \<Rightarrow> duration \<Rightarrow> (nat \<Rightarrow> 'i \<Rightarrow> 'i event list \<times> 'i step) \<Rightarrow> bool" where
  "regular okfmt exmsg iv body =
     (\<forall>i a. case body i a of
        (evs, Return Succeeded) \<Rightarrow>
          terminalErrors evs = 0 \<and> sleeps evs = 0 \<and> evs \<noteq> []
          \<and> (\<exists>n. last evs = Printf okfmt [IntArg n])
      | (evs, Return Exhausted) \<Rightarrow>
          terminalErrors evs = 1 \<and> sleeps evs = 0 \<and> evs \<noteq> [] \<and> last evs = ChanSend exmsg
      | (evs, Return st) \<Rightarrow> False
      | (evs, Continue a') \<Rightarrow>
          terminalErrors evs = 0 \<and> sleeps evs = 1 \<and> evs \<noteq> [] \<and> last evs = Sleep iv)"

subsection \<open>Sample configurations and environments\<close>

text \<open>
  A 64-bit agent that retries every 30 time units, with the same maximum for LAN and WAN.
  \<open>refusing d\<close> is a world in which discovery answers \<open>d\<close> and every join is refused;
  in \<open>acceptingFrom k d\<close> the joins are refused in the iterations before \<open>k\<close> and reach
  three agents from then on.
\<close>

definition sampleConfig :: "string list \<Rightarrow> string list \<Rightarrow> 64 word \<Rightarrow> 64 word config" where
  "sampleConfig lan wan n =
     \<lparr>RetryJoin = lan, RetryJoinWan = wan, RetryInterval = 30, RetryIntervalWan = 30,
      RetryMaxAttempts = n, RetryMaxAttemptsWan = n\<rparr>"

definition refusing :: "string list \<times> error option \<Rightarrow> 64 word env" where
  "refusing d =
     \<lparr>discoverAddrs = (\<lambda>i disco. d),
      JoinLAN = (\<lambda>i xs. (0, Some ''connection refused'')),
      JoinWAN = (\<lambda>i xs. (0, Some ''connection refused''))\<rparr>"

definition acceptingFrom :: "nat \<Rightarrow> string list \<times> error option \<Rightarrow> 64 word env" where
  "acceptingFrom k d =
     \<lparr>discoverAddrs = (\<lambda>i disco. d),
      JoinLAN = (\<lambda>i xs. if i < k then (0, Some ''connection refused'') else (3, None)),
      JoinWAN = (\<lambda>i xs. if i < k then (0, Some ''connection refused'') else (3, None))\<rparr>"

section \<open>Properties\<close>

subsection \<open>Signed comparison of small counters\<close>

lemma sint_of_nat_small:
  assumes "m < 2 ^ (LENGTH('w::len) - 1)"
  shows "sint (of_nat m :: 'w word) = int m"
proof -
  have "int m < int (2 ^ (LENGTH('w) - 1))"
    using assms by (simp only: of_nat_less_iff)
  then have "int m < 2 ^ (LENGTH('w) - 1)" by simp
  moreover have "- (2 ^ (LENGTH('w) - 1)) \<le> int m"
    by (rule order_trans[of _ 0]) simp_all
  ultimately have "signed_take_bit (LENGTH('w) - 1) (int m) = int m"
    by (rule signed_take_bit_int_eq_self[rotated])
  then show ?thesis by (simp add: signed_of_nat)
qed

lemma sless_of_nat:
  assumes "a < 2 ^ (LENGTH('w::len) - 1)" "b < 2 ^ (LENGTH('w) - 1)"
  shows "((of_nat a :: 'w word) <s of_nat b) = (a < b)"
  using assms by (simp add: word_sless_alt sint_of_nat_small)

lemma zero_sless_of_nat:
  assumes "b < 2 ^ (LENGTH('w::len) - 1)"
  shows "((0 :: 'w word) <s of_nat b) = (0 < b)"
  using sless_of_nat[of 0 b, where 'w='w] assms by simp

lemma afterFailure_zero:
  "afterFailure 0 iv ex wn a err = ([Printf wn [ErrArg err, DurArg iv], Sleep iv], Continue (a + 1))"
  by (simp add: afterFailure_def)

lemma afterFailure_of_nat:
  assumes "0 < n" "n + 1 < 2 ^ (LENGTH('w::len) - 1)" "k \<le> n"
  shows "afterFailure (of_nat n :: 'w word) iv ex wn (of_nat k) err =
           (if k = n then ([ChanSend ex], Return Exhausted)
            else ([Printf wn [ErrArg err, DurArg iv], Sleep iv], Continue (of_nat (Suc k))))"
proof -
  have n: "n < 2 ^ (LENGTH('w) - 1)" and k: "Suc k < 2 ^ (LENGTH('w) - 1)"
    using assms by simp_all
  have "(of_nat k :: 'w word) + 1 = of_nat (Suc k)" by simp
  moreover have "((0 :: 'w word) <s of_nat n)" using zero_sless_of_nat[OF n] assms(1) by simp
  moreover have "((of_nat n :: 'w word) <s of_nat (Suc k)) = (k = n)"
    using sless_of_nat[OF n k] assms(3) by auto
  ultimately show ?thesis
    by (simp only: afterFailure_def Let_def) simp
qed

subsection \<open>The loop bodies, case by case\<close>

lemma afterFailure_cases:
  "afterFailure mx iv ex wn a err =
     (if 0 <s mx \<and> mx <s a + 1 then ([ChanSend ex], Return Exhausted)
      else ([Printf wn [ErrArg err, DurArg iv], Sleep iv], Continue (a + 1)))"
  by (simp add: afterFailure_def Let_def)

lemma lanDiscover_counts:
  "filter isSend (snd (lanDiscover e disco i)) = []"
  "filter isSleep (snd (lanDiscover e disco i)) = []"
  "filter isJoin (snd (lanDiscover e disco i)) = []"
  by (simp_all add: lanDiscover_def split: prod.splits)

lemma lanIteration_cases:
  "lanIteration e cfg addrs disco i a =
     (if lanServers e addrs disco i = [] then
        (snd (lanDiscover e disco i)
           @ fst (afterFailure (RetryMaxAttempts cfg) (RetryInterval cfg)
                    ''agent: max join retry exhausted, exiting''
                    ''[WARN] agent: Join failed: %v, retrying in %v''
                    a (Some ''No servers to join'')),
         snd (afterFailure (RetryMaxAttempts cfg) (RetryInterval cfg)
                    ''agent: max join retry exhausted, exiting''
                    ''[WARN] agent: Join failed: %v, retrying in %v''
                    a (Some ''No servers to join'')))
      else if snd (JoinLAN e i (lanServers e addrs disco i)) = None then
        (snd (lanDiscover e disco i)
           @ [JoinLANCall (lanServers e addrs disco i),
              Printf ''[INFO] agent: Join completed. Synced with %d initial agents''
                [IntArg (fst (JoinLAN e i (lanServers e addrs disco i)))]],
         Return Succeeded)
      else
        (snd (lanDiscover e disco i) @ [JoinLANCall (lanServers e addrs disco i)]
           @ fst (afterFailure (RetryMaxAttempts cfg) (RetryInterval cfg)
                    ''agent: max join retry exhausted, exiting''
                    ''[WARN] agent: Join failed: %v, retrying in %v''
                    a (snd (fst (lanDiscover e disco i)))),
         snd (afterFailure (RetryMaxAttempts cfg) (RetryInterval cfg)
                    ''agent: max join retry exhausted, exiting''
                    ''[WARN] agent: Join failed: %v, retrying in %v''
                    a (snd (fst (lanDiscover e disco i))))))"
  by (simp add: lanIteration_def lanServers_def Let_def split: prod.splits)

lemma wanIteration_cases:
  "wanIteration e cfg i a =
     (if snd (JoinWAN e i (RetryJoinWan cfg)) = None then
        ([JoinWANCall (RetryJoinWan cfg),
          Printf ''[INFO] agent: Join -wan completed. Synced with %d initial agents''
            [IntArg (fst (JoinWAN e i (RetryJoinWan cfg)))]],
         Return Succeeded)
      else
        (JoinWANCall (RetryJoinWan cfg)
           # fst (afterFailure (RetryMaxAttemptsWan cfg) (RetryIntervalWan cfg)
                    ''agent: max join -wan retry exhausted, exiting''
                    ''[WARN] agent: Join -wan failed: %v, retrying in %v''
                    a (snd (JoinWAN e i (RetryJoinWan cfg)))),
         snd (afterFailure (RetryMaxAttemptsWan cfg) (RetryIntervalWan cfg)
                    ''agent: max join -wan retry exhausted, exiting''
                    ''[WARN] agent: Join -wan failed: %v, retrying in %v''
                    a (snd (JoinWAN e i (RetryJoinWan cfg))))))"
  by (simp add: wanIteration_def Let_def split: prod.splits)

subsection \<open>The loop\<close>

text \<open>A loop that has returned is not changed by a longer observation.\<close>

lemma loop_stable:
  "fst (loop body f i a) \<noteq> Retrying \<Longrightarrow> loop body (f + d) i a = loop body f i a"
proof (induction f arbitrary: i a)
  case 0
  then show ?case by simp
next
  case (Suc f)
  obtain evs st where b: "body i a = (evs, st)" by (cases "body i a")
  show ?case
  proof (cases st)
    case (Return x)
    with b show ?thesis by simp
  next
    case (Continue a')
    with b Suc.prems have "fst (loop body f (Suc i) a') \<noteq> Retrying"
      by (simp split: prod.splits)
    from Suc.IH[OF this] b Continue show ?thesis by simp
  qed
qed

text \<open>Both loop bodies are regular, and a loop with a regular body has a regular trace.\<close>

lemma regular_lan:
  "regular ''[INFO] agent: Join completed. Synced with %d initial agents''
     ''agent: max join retry exhausted, exiting'' (RetryInterval cfg)
     (lanIteration e cfg addrs disco)"
  unfolding regular_def
  by (simp add: lanIteration_cases afterFailure_cases lanDiscover_counts
        terminalErrors_def sleeps_def)

lemma regular_wan:
  "regular ''[INFO] agent: Join -wan completed. Synced with %d initial agents''
     ''agent: max join -wan retry exhausted, exiting'' (RetryIntervalWan cfg)
     (wanIteration e cfg)"
  unfolding regular_def
  by (simp add: wanIteration_cases afterFailure_cases terminalErrors_def sleeps_def)

lemma counts_append [simp]:
  "joinAttempts (xs @ ys) = joinAttempts xs + joinAttempts ys"
  "terminalErrors (xs @ ys) = terminalErrors xs + terminalErrors ys"
  "sleeps (xs @ ys) = sleeps xs + sleeps ys"
  by (simp_all add: joinAttempts_def terminalErrors_def sleeps_def)

lemma regularD:
  assumes "regular okfmt exmsg iv body" "body i a = (evs, st)"
  shows "st = Return Succeeded \<Longrightarrow>
           terminalErrors evs = 0 \<and> sleeps evs = 0 \<and> evs \<noteq> []
           \<and> (\<exists>n. last evs = Printf okfmt [IntArg n])"
    and "st = Return Exhausted \<Longrightarrow>
           terminalErrors evs = 1 \<and> sleeps evs = 0 \<and> evs \<noteq> [] \<and> last evs = ChanSend exmsg"
    and "st \<noteq> Return NotStarted" and "st \<noteq> Return Retrying"
    and "st = Continue a' \<Longrightarrow>
           terminalErrors evs = 0 \<and> sleeps evs = 1 \<and> evs \<noteq> [] \<and> last evs = Sleep iv"
  using assms(1)[unfolded regular_def, rule_format, of i a] assms(2)
  by (auto split: step.splits state.splits)

lemma loop_Return:
  "body i a = (evs, Return st) \<Longrightarrow> loop body (Suc f) i a = (st, evs)"
  by simp

lemma loop_Continue:
  "body i a = (evs, Continue a') \<Longrightarrow>
     loop body (Suc f) i a = (fst (loop body f (Suc i) a'), evs @ snd (loop body f (Suc i) a'))"
  by (simp add: case_prod_beta)

lemma loop_regular:
  assumes r: "regular okfmt exmsg iv body"
  shows "case loop body f i a of
           (NotStarted, tr) \<Rightarrow> False
         | (Retrying, tr) \<Rightarrow> terminalErrors tr = 0 \<and> sleeps tr = f
         | (Succeeded, tr) \<Rightarrow>
             terminalErrors tr = 0 \<and> sleeps tr < f \<and> tr \<noteq> []
             \<and> (\<exists>n. last tr = Printf okfmt [IntArg n])
         | (Exhausted, tr) \<Rightarrow>
             terminalErrors tr = 1 \<and> sleeps tr < f \<and> tr \<noteq> [] \<and> last tr = ChanSend exmsg"
proof (induction f arbitrary: i a)
  case 0
  show ?case by (simp add: terminalErrors_def sleeps_def)
next
  case (Suc f)
  obtain evs st where b: "body i a = (evs, st)" by (cases "body i a")
  show ?case
  proof (cases st)
    case (Return x)
    with regularD[OF r b] b show ?thesis by (cases x) simp_all
  next
    case (Continue a')
    obtain st' rest where l: "loop body f (Suc i) a' = (st', rest)"
      by (cases "loop body f (Suc i) a'")
    have "loop body (Suc f) i a = (st', evs @ rest)"
      using loop_Continue[of body i a evs a' f] b Continue l by simp
    with regularD(5)[OF r b Continue] Suc.IH[of "Suc i" a'] l
    show ?thesis by (cases st') auto
  qed
qed

lemma loop_success_sleeps:
  assumes r: "regular okfmt exmsg iv body"
  shows "fst (loop body (Suc f) i a) = Succeeded \<Longrightarrow> fst (loop body f i a) = Retrying
           \<Longrightarrow> sleeps (snd (loop body (Suc f) i a)) = f"
proof (induction f arbitrary: i a)
  case 0
  obtain evs st where b: "body i a = (evs, st)" by (cases "body i a")
  with 0 regularD[OF r b] show ?case
    by (cases st) (auto split: prod.splits)
next
  case (Suc f)
  obtain evs st where b: "body i a = (evs, st)" by (cases "body i a")
  show ?case
  proof (cases st)
    case (Return x)
    with b Suc.prems loop_Return[of body i a evs x] show ?thesis by (simp del: loop.simps)
  next
    case (Continue a')
    note c = loop_Continue[of body i a evs a']
    from b Continue have bc: "body i a = (evs, Continue a')" by simp
    from Suc.prems have "fst (loop body (Suc f) (Suc i) a') = Succeeded"
      "fst (loop body f (Suc i) a') = Retrying"
      by (simp_all only: c[OF bc] fst_conv)
    from Suc.IH[OF this] regularD(5)[OF r b Continue] show ?thesis
      by (simp only: c[OF bc] snd_conv counts_append)
  qed
qed

lemma loop_never_exhausted:
  assumes "\<And>i a. snd (body i a) \<noteq> Return Exhausted"
  shows "fst (loop body f i a) \<noteq> Exhausted"
proof (induction f arbitrary: i a)
  case 0
  show ?case by simp
next
  case (Suc f)
  obtain evs st where b: "body i a = (evs, st)" by (cases "body i a")
  show ?case
  proof (cases st)
    case (Return x)
    with b assms[of i a] show ?thesis by simp
  next
    case (Continue a')
    with b Suc.IH[of "Suc i" a'] show ?thesis
      by (simp add: loop_Continue del: loop.simps)
  qed
qed

subsection \<open>Splitting the configured addresses\<close>

text \<open>\<open>Contains\<close> is the substring test, as \<open>strings.Contains\<close> is documented.\<close>

lemma HasPrefix_iff: "HasPrefix s p = (\<exists>q. s = p @ q)"
  by (induction s p rule: HasPrefix.induct) auto

lemma Contains_iff: "Contains s sub = (\<exists>p q. s = p @ sub @ q)"
proof (induction s)
  case Nil
  show ?case by auto
next
  case (Cons c cs)
  show ?case
  proof
    assume "Contains (c # cs) sub"
    then consider "HasPrefix (c # cs) sub" | "Contains cs sub" by auto
    then show "\<exists>p q. c # cs = p @ sub @ q"
    proof cases
      case 1
      then obtain q where "c # cs = sub @ q" by (auto simp: HasPrefix_iff)
      then have "c # cs = [] @ sub @ q" by simp
      then show ?thesis by blast
    next
      case 2
      with Cons.IH obtain p q where "cs = p @ sub @ q" by auto
      then have "c # cs = (c # p) @ sub @ q" by simp
      then show ?thesis by blast
    qed
  next
    assume "\<exists>p q. c # cs = p @ sub @ q"
    then obtain p q where pq: "c # cs = p @ sub @ q" by blast
    show "Contains (c # cs) sub"
    proof (cases p)
      case Nil
      with pq have "HasPrefix (c # cs) sub" by (auto simp: HasPrefix_iff)
      then show ?thesis by simp
    next
      case (Cons c' p')
      with pq have "cs = p' @ sub @ q" by simp
      with Cons.IH have "Contains cs sub" by blast
      then show ?thesis by simp
    qed
  qed
qed

lemma splitAddrs_acc:
  "splitAddrs js (addrs, disco) =
     (addrs @ filter (\<lambda>a. \<not> Contains a ''provider='') js,
      (case filter (\<lambda>a. Contains a ''provider='') js of
         [] \<Rightarrow> disco
       | m # ms \<Rightarrow> last (m # ms)))"
proof (induction js arbitrary: addrs disco)
  case Nil
  show ?case by simp
next
  case (Cons addr rest)
  show ?case
  proof (cases "Contains addr ''provider=''")
    case True
    then show ?thesis
      using Cons.IH[of addrs addr] by (simp split: list.splits)
  next
    case False
    then show ?thesis
      using Cons.IH[of "addrs @ [addr]" disco] by simp
  qed
qed

lemma marker_nonempty: "Contains a ''provider='' \<Longrightarrow> a \<noteq> ''''"
  by (cases a) simp_all

lemma last_filter_marker:
  assumes "filter (\<lambda>a. Contains a ''provider='') js = m # ms"
  shows "Contains (last (m # ms)) ''provider=''"
proof -
  have "last (m # ms) \<in> set (filter (\<lambda>a. Contains a ''provider='') js)"
    unfolding assms by (rule last_in_set) simp
  then show ?thesis by simp
qed

text \<open>
  C3. For every configured list, the first loop of retryJoin puts every entry that does
  not contain \<open>provider=\<close> into \<open>addrs\<close>, in the original order, leaves out every entry
  that contains it, and keeps in \<open>disco\<close> the last entry that contains it. When there is
  none, \<open>disco\<close> is the empty string, which is how the code tests for an absent
  directive (\<open>disco != ""\<close>); \<open>disco\<close> is empty in no other case. The list
  \<open>["10.0.0.1", "provider=mock key=value", "10.0.0.2"]\<close> gives the addresses
  \<open>["10.0.0.1", "10.0.0.2"]\<close> and the directive \<open>"provider=mock key=value"\<close>.
\<close>

theorem splitAddrs_partition:
  "splitAddrs js ([], '''') =
     (filter (\<lambda>a. \<not> Contains a ''provider='') js,
      (case filter (\<lambda>a. Contains a ''provider='') js of
         [] \<Rightarrow> ''''
       | m # ms \<Rightarrow> last (m # ms)))
   \<and> ((snd (splitAddrs js ([], '''')) = '''') = (filter (\<lambda>a. Contains a ''provider='') js = []))
   \<and> splitAddrs [''10.0.0.1'', ''provider=mock key=value'', ''10.0.0.2''] ([], '''') =
       ([''10.0.0.1'', ''10.0.0.2''], ''provider=mock key=value'')"
proof (intro conjI)
  show "splitAddrs js ([], '''') =
     (filter (\<lambda>a. \<not> Contains a ''provider='') js,
      (case filter (\<lambda>a. Contains a ''provider='') js of
         [] \<Rightarrow> ''''
       | m # ms \<Rightarrow> last (m # ms)))"
    by (simp add: splitAddrs_acc)
  show "(snd (splitAddrs js ([], '''')) = '''') = (filter (\<lambda>a. Contains a ''provider='') js = [])"
  proof (cases "filter (\<lambda>a. Contains a ''provider='') js")
    case Nil
    then show ?thesis by (simp add: splitAddrs_acc)
  next
    case (Cons m ms)
    from marker_nonempty[OF last_filter_marker[OF Cons]] Cons show ?thesis
      by (simp add: splitAddrs_acc)
  qed
  show "splitAddrs [''10.0.0.1'', ''provider=mock key=value'', ''10.0.0.2''] ([], '''') =
       ([''10.0.0.1'', ''10.0.0.2''], ''provider=mock key=value'')"
    by simp
qed

theorem splitAddrs_partition_witness:
  "splitAddrs [''provider=aws tag=a'', ''10.0.0.1'', ''provider=mock key=value'', ''10.0.0.2'', ''10.0.0.1''] ([], '''')
     = ([''10.0.0.1'', ''10.0.0.2'', ''10.0.0.1''], ''provider=mock key=value'')"
  using splitAddrs_partition [of "[''provider=aws tag=a'', ''10.0.0.1'', ''provider=mock key=value'', ''10.0.0.2'', ''10.0.0.1'']"]
  by simp

subsection \<open>An empty address list\<close>

text \<open>
  C9. If the configured address list of a controller (\<open>RetryJoin\<close> for LAN, \<open>RetryJoinWan\<close>
  for WAN) is empty, the controller does nothing at all: it returns before the first log
  line and before the loop, so its trace has no event of any kind (no log output, no join
  attempt, no send to the failure channel, no sleep), however long it is observed.
\<close>

theorem empty_join_spec_does_nothing:
  "(RetryJoin cfg = [] \<longrightarrow> retryJoin fuel e cfg = (NotStarted, []))
   \<and> (RetryJoinWan cfg = [] \<longrightarrow> retryJoinWan fuel e cfg = (NotStarted, []))"
  by (simp add: retryJoin_def retryJoinWan_def)

theorem empty_join_spec_does_nothing_witness:
  "RetryJoin (sampleConfig [] [] 3) = [] \<and> RetryJoinWan (sampleConfig [] [] 3) = []
   \<and> retryJoin 5 (refusing ([], None)) (sampleConfig [] [] 3) = (NotStarted, [])
   \<and> retryJoinWan 5 (refusing ([], None)) (sampleConfig [] [] 3) = (NotStarted, [])"
  using empty_join_spec_does_nothing [of "sampleConfig [] [] 3" 5 "refusing ([], None)"]
  by (simp add: sampleConfig_def)

subsection \<open>A failed iteration\<close>

text \<open>
  An iteration of the LAN loop fails when the list for the join is empty or \<open>JoinLAN\<close>
  returns an error; an iteration of the WAN loop fails when \<open>JoinWAN\<close> returns an error.
\<close>

lemma lanServers_eq:
  "lanServers e addrs disco i = (if disco \<noteq> '''' then fst (discoverAddrs e i disco) else []) @ addrs"
  by (simp add: lanServers_def lanDiscover_def split: prod.splits)

lemma lanIteration_failed:
  assumes "lanServers e addrs disco i = [] \<or> snd (JoinLAN e i (lanServers e addrs disco i)) \<noteq> None"
  shows "snd (lanIteration e cfg addrs disco i attempt) =
           (if 0 <s RetryMaxAttempts cfg \<and> RetryMaxAttempts cfg <s attempt + 1
            then Return Exhausted else Continue (attempt + 1))"
    and "0 <s RetryMaxAttempts cfg \<and> RetryMaxAttempts cfg <s attempt + 1 \<Longrightarrow>
           terminalErrors (fst (lanIteration e cfg addrs disco i attempt)) = 1
           \<and> sleeps (fst (lanIteration e cfg addrs disco i attempt)) = 0
           \<and> last (fst (lanIteration e cfg addrs disco i attempt)) =
               ChanSend ''agent: max join retry exhausted, exiting''"
    and "\<not> (0 <s RetryMaxAttempts cfg \<and> RetryMaxAttempts cfg <s attempt + 1) \<Longrightarrow>
           terminalErrors (fst (lanIteration e cfg addrs disco i attempt)) = 0
           \<and> sleeps (fst (lanIteration e cfg addrs disco i attempt)) = 1
           \<and> last (fst (lanIteration e cfg addrs disco i attempt)) = Sleep (RetryInterval cfg)"
  using assms
  by (auto simp add: lanIteration_cases afterFailure_cases lanDiscover_counts
        terminalErrors_def sleeps_def)

lemma wanIteration_failed:
  assumes "snd (JoinWAN e i (RetryJoinWan cfg)) \<noteq> None"
  shows "snd (wanIteration e cfg i attempt) =
           (if 0 <s RetryMaxAttemptsWan cfg \<and> RetryMaxAttemptsWan cfg <s attempt + 1
            then Return Exhausted else Continue (attempt + 1))"
    and "0 <s RetryMaxAttemptsWan cfg \<and> RetryMaxAttemptsWan cfg <s attempt + 1 \<Longrightarrow>
           terminalErrors (fst (wanIteration e cfg i attempt)) = 1
           \<and> sleeps (fst (wanIteration e cfg i attempt)) = 0
           \<and> last (fst (wanIteration e cfg i attempt)) =
               ChanSend ''agent: max join -wan retry exhausted, exiting''"
    and "\<not> (0 <s RetryMaxAttemptsWan cfg \<and> RetryMaxAttemptsWan cfg <s attempt + 1) \<Longrightarrow>
           terminalErrors (fst (wanIteration e cfg i attempt)) = 0
           \<and> sleeps (fst (wanIteration e cfg i attempt)) = 1
           \<and> last (fst (wanIteration e cfg i attempt)) = Sleep (RetryIntervalWan cfg)"
  using assms
  by (auto simp add: wanIteration_cases afterFailure_cases terminalErrors_def sleeps_def)

text \<open>
  C2. After every failed iteration the controller adds one to its attempt counter
  (\<open>attempt++\<close>, in the arithmetic of Go's \<open>int\<close>). It sends the terminal error on the
  channel and returns if and only if the configured maximum is greater than zero and the
  incremented counter is strictly greater than the maximum; in that case the send is the
  last event of the iteration and there is no sleep. Otherwise nothing is sent, the
  iteration ends with one sleep of the configured interval and the loop goes round with
  the incremented counter. This holds for the LAN and for the WAN controller.
\<close>

theorem failed_iteration_counts_then_decides:
  "(lanServers e addrs disco i = [] \<or> snd (JoinLAN e i (lanServers e addrs disco i)) \<noteq> None
      \<longrightarrow>
      snd (lanIteration e cfg addrs disco i attempt) =
        (if 0 <s RetryMaxAttempts cfg \<and> RetryMaxAttempts cfg <s attempt + 1
         then Return Exhausted else Continue (attempt + 1))
      \<and> (if 0 <s RetryMaxAttempts cfg \<and> RetryMaxAttempts cfg <s attempt + 1
         then terminalErrors (fst (lanIteration e cfg addrs disco i attempt)) = 1
              \<and> sleeps (fst (lanIteration e cfg addrs disco i attempt)) = 0
              \<and> last (fst (lanIteration e cfg addrs disco i attempt)) =
                  ChanSend ''agent: max join retry exhausted, exiting''
         else terminalErrors (fst (lanIteration e cfg addrs disco i attempt)) = 0
              \<and> sleeps (fst (lanIteration e cfg addrs disco i attempt)) = 1
              \<and> last (fst (lanIteration e cfg addrs disco i attempt)) =
                  Sleep (RetryInterval cfg)))
   \<and> (snd (JoinWAN e i (RetryJoinWan cfg)) \<noteq> None
      \<longrightarrow>
      snd (wanIteration e cfg i attempt) =
        (if 0 <s RetryMaxAttemptsWan cfg \<and> RetryMaxAttemptsWan cfg <s attempt + 1
         then Return Exhausted else Continue (attempt + 1))
      \<and> (if 0 <s RetryMaxAttemptsWan cfg \<and> RetryMaxAttemptsWan cfg <s attempt + 1
         then terminalErrors (fst (wanIteration e cfg i attempt)) = 1
              \<and> sleeps (fst (wanIteration e cfg i attempt)) = 0
              \<and> last (fst (wanIteration e cfg i attempt)) =
                  ChanSend ''agent: max join -wan retry exhausted, exiting''
         else terminalErrors (fst (wanIteration e cfg i attempt)) = 0
              \<and> sleeps (fst (wanIteration e cfg i attempt)) = 1
              \<and> last (fst (wanIteration e cfg i attempt)) =
                  Sleep (RetryIntervalWan cfg)))"
proof (intro conjI impI)
  assume f: "lanServers e addrs disco i = []
             \<or> snd (JoinLAN e i (lanServers e addrs disco i)) \<noteq> None"
  show "snd (lanIteration e cfg addrs disco i attempt) =
        (if 0 <s RetryMaxAttempts cfg \<and> RetryMaxAttempts cfg <s attempt + 1
         then Return Exhausted else Continue (attempt + 1))"
    by (rule lanIteration_failed(1)[OF f])
  show "if 0 <s RetryMaxAttempts cfg \<and> RetryMaxAttempts cfg <s attempt + 1
         then terminalErrors (fst (lanIteration e cfg addrs disco i attempt)) = 1
              \<and> sleeps (fst (lanIteration e cfg addrs disco i attempt)) = 0
              \<and> last (fst (lanIteration e cfg addrs disco i attempt)) =
                  ChanSend ''agent: max join retry exhausted, exiting''
         else terminalErrors (fst (lanIteration e cfg addrs disco i attempt)) = 0
              \<and> sleeps (fst (lanIteration e cfg addrs disco i attempt)) = 1
              \<and> last (fst (lanIteration e cfg addrs disco i attempt)) =
                  Sleep (RetryInterval cfg)"
    using lanIteration_failed(2,3)[OF f, of cfg attempt]
    by (cases "0 <s RetryMaxAttempts cfg \<and> RetryMaxAttempts cfg <s attempt + 1")
simp_all
next
  assume f: "snd (JoinWAN e i (RetryJoinWan cfg)) \<noteq> None"
  show "snd (wanIteration e cfg i attempt) =
        (if 0 <s RetryMaxAttemptsWan cfg \<and> RetryMaxAttemptsWan cfg <s attempt + 1
         then Return Exhausted else Continue (attempt + 1))"
    by (rule wanIteration_failed(1)[OF f])
  show "if 0 <s RetryMaxAttemptsWan cfg \<and> RetryMaxAttemptsWan cfg <s attempt + 1
         then terminalErrors (fst (wanIteration e cfg i attempt)) = 1
              \<and> sleeps (fst (wanIteration e cfg i attempt)) = 0
              \<and> last (fst (wanIteration e cfg i attempt)) =
                  ChanSend ''agent: max join -wan retry exhausted, exiting''
         else terminalErrors (fst (wanIteration e cfg i attempt)) = 0
              \<and> sleeps (fst (wanIteration e cfg i attempt)) = 1
              \<and> last (fst (wanIteration e cfg i attempt)) =
                  Sleep (RetryIntervalWan cfg)"
    using wanIteration_failed(2,3)[OF f, of attempt]
    by (cases "0 <s RetryMaxAttemptsWan cfg \<and> RetryMaxAttemptsWan cfg <s attempt + 1")
simp_all
qed

theorem failed_iteration_counts_then_decides_witness:
  "snd (JoinLAN (refusing ([], None)) 2 (lanServers (refusing ([], None)) [''10.0.0.1''] [] 2))
     \<noteq> None
   \<and> snd (lanIteration (refusing ([], None)) (sampleConfig [''10.0.0.1''] [''10.1.0.1''] 2)
           [''10.0.0.1''] [] 2 1) = Continue 2
   \<and> snd (lanIteration (refusing ([], None)) (sampleConfig [''10.0.0.1''] [''10.1.0.1''] 2)
           [''10.0.0.1''] [] 2 2) = Return Exhausted
   \<and> snd (JoinWAN (refusing ([], None)) 2
           (RetryJoinWan (sampleConfig [''10.0.0.1''] [''10.1.0.1''] 2))) \<noteq> None
   \<and> snd (wanIteration (refusing ([], None)) (sampleConfig [''10.0.0.1''] [''10.1.0.1''] 2) 2 1)
       = Continue 2
   \<and> snd (wanIteration (refusing ([], None)) (sampleConfig [''10.0.0.1''] [''10.1.0.1''] 2) 2 2)
       = Return Exhausted"
proof -
  let ?e = "refusing ([], None)"
  let ?cfg = "sampleConfig [''10.0.0.1''] [''10.1.0.1''] 2"
  have lan: "snd (JoinLAN ?e 2 (lanServers ?e [''10.0.0.1''] [] 2)) \<noteq> None"
    by (simp add: refusing_def)
  have wan: "snd (JoinWAN ?e 2 (RetryJoinWan ?cfg)) \<noteq> None"
    by (simp add: refusing_def)
  have g1: "\<not> (0 <s RetryMaxAttempts ?cfg \<and> RetryMaxAttempts ?cfg <s 1 + 1)"
    "\<not> (0 <s RetryMaxAttemptsWan ?cfg \<and> RetryMaxAttemptsWan ?cfg <s 1 + 1)"
    by (simp_all add: sampleConfig_def word_sless_alt)
  have g2: "0 <s RetryMaxAttempts ?cfg \<and> RetryMaxAttempts ?cfg <s 2 + 1"
    "0 <s RetryMaxAttemptsWan ?cfg \<and> RetryMaxAttemptsWan ?cfg <s 2 + 1"
    by (simp_all add: sampleConfig_def word_sless_alt)
  show ?thesis
    using lan wan g1 g2
      failed_iteration_counts_then_decides [of ?e "[''10.0.0.1'']" "[]" 2 ?cfg 1]
      failed_iteration_counts_then_decides [of ?e "[''10.0.0.1'']" "[]" 2 ?cfg 2]
    by simp
qed

subsection \<open>The list given to the LAN join\<close>

lemma lanIteration_empty:
  assumes "lanServers e addrs disco i = []"
  shows "lanIteration e cfg addrs disco i attempt =
       (if 0 <s RetryMaxAttempts cfg \<and> RetryMaxAttempts cfg <s attempt + 1
        then (snd (lanDiscover e disco i)
                @ [ChanSend ''agent: max join retry exhausted, exiting''],
              Return Exhausted)
        else (snd (lanDiscover e disco i)
                @ [Printf ''[WARN] agent: Join failed: %v, retrying in %v''
                     [ErrArg (Some ''No servers to join''), DurArg (RetryInterval cfg)],
                   Sleep (RetryInterval cfg)],
              Continue (attempt + 1)))"
  using assms by (simp add: lanIteration_cases afterFailure_cases)

lemma lanIteration_joins:
  "filter isJoin (fst (lanIteration e cfg addrs disco i attempt)) =
     (if lanServers e addrs disco i = [] then []
      else [JoinLANCall (lanServers e addrs disco i)])"
  by (simp add: lanIteration_cases afterFailure_cases lanDiscover_counts)

text \<open>
  C5. In every iteration of the LAN loop in which the combined list (discovered
  addresses followed by the static ones) is empty, no join call is made, and the
  iteration is a failure whose error is "No servers to join": the attempt counter is
  incremented and the guard on the maximum decides as after a failed join; when the loop
  goes round, the warning that is logged carries that error and the configured interval.
\<close>

theorem empty_candidates_fail_without_join:
  assumes "lanServers e addrs disco i = []"
  shows "joinAttempts (fst (lanIteration e cfg addrs disco i attempt)) = 0
   \<and> filter isJoin (fst (lanIteration e cfg addrs disco i attempt)) = []
   \<and> lanIteration e cfg addrs disco i attempt =
       (if 0 <s RetryMaxAttempts cfg \<and> RetryMaxAttempts cfg <s attempt + 1
        then (snd (lanDiscover e disco i)
                @ [ChanSend ''agent: max join retry exhausted, exiting''],
              Return Exhausted)
        else (snd (lanDiscover e disco i)
                @ [Printf ''[WARN] agent: Join failed: %v, retrying in %v''
                     [ErrArg (Some ''No servers to join''), DurArg (RetryInterval cfg)],
                   Sleep (RetryInterval cfg)],
              Continue (attempt + 1)))"
proof (intro conjI)
  show j: "filter isJoin (fst (lanIteration e cfg addrs disco i attempt)) = []"
    using assms by (simp add: lanIteration_joins)
  then show "joinAttempts (fst (lanIteration e cfg addrs disco i attempt)) = 0"
    by (simp add: joinAttempts_def)
  show "lanIteration e cfg addrs disco i attempt =
       (if 0 <s RetryMaxAttempts cfg \<and> RetryMaxAttempts cfg <s attempt + 1
        then (snd (lanDiscover e disco i)
                @ [ChanSend ''agent: max join retry exhausted, exiting''],
              Return Exhausted)
        else (snd (lanDiscover e disco i)
                @ [Printf ''[WARN] agent: Join failed: %v, retrying in %v''
                     [ErrArg (Some ''No servers to join''), DurArg (RetryInterval cfg)],
                   Sleep (RetryInterval cfg)],
              Continue (attempt + 1)))"
    by (rule lanIteration_empty[OF assms])
qed

theorem empty_candidates_fail_without_join_witness:
  "lanServers (refusing ([], None)) [] ''provider=mock key=value'' 0 = []
   \<and> lanIteration (refusing ([], None)) (sampleConfig [''provider=mock key=value''] [] 0)
       [] ''provider=mock key=value'' 0 0 =
      ([DiscoverCall ''provider=mock key=value'',
        Printf ''[ERR] agent: Discovered servers: %v'' [StrsArg []],
        Printf ''[WARN] agent: Join failed: %v, retrying in %v''
          [ErrArg (Some ''No servers to join''), DurArg 30],
        Sleep 30],
       Continue 1)"
proof -
  let ?e = "refusing ([], None)"
  let ?cfg = "sampleConfig [''provider=mock key=value''] [] 0"
  have h: "lanServers ?e [] ''provider=mock key=value'' 0 = []"
    by (simp add: lanServers_def lanDiscover_def refusing_def)
  have d: "snd (lanDiscover ?e ''provider=mock key=value'' 0) =
             [DiscoverCall ''provider=mock key=value'',
              Printf ''[ERR] agent: Discovered servers: %v'' [StrsArg []]]"
    by (simp add: lanDiscover_def refusing_def)
  have g: "\<not> (0 <s RetryMaxAttempts ?cfg \<and> RetryMaxAttempts ?cfg <s 0 + 1)"
    by (simp add: sampleConfig_def)
  have i: "RetryInterval ?cfg = 30" by (simp add: sampleConfig_def)
  from empty_candidates_fail_without_join [OF h, of ?cfg 0] h d g i
  show ?thesis by simp
qed

lemma lanDiscover_erase:
  "fst (fst (lanDiscover (e\<lparr>discoverAddrs := \<lambda>j d. (fst (discoverAddrs e j d), None)\<rparr>) disco i))
     = fst (fst (lanDiscover e disco i))"
  by (simp add: lanDiscover_def split: prod.splits)

lemma lanServers_erase:
  "lanServers (e\<lparr>discoverAddrs := \<lambda>j d. (fst (discoverAddrs e j d), None)\<rparr>) addrs disco i
     = lanServers e addrs disco i"
  by (simp add: lanServers_def lanDiscover_erase)

lemma lanIteration_erase:
  "snd (lanIteration (e\<lparr>discoverAddrs := \<lambda>j d. (fst (discoverAddrs e j d), None)\<rparr>)
          cfg addrs disco i attempt)
     = snd (lanIteration e cfg addrs disco i attempt)"
  by (simp add: lanIteration_cases lanServers_erase afterFailure_cases)

lemma lanIteration_erase_calls:
  "filter isJoin (fst (lanIteration (e\<lparr>discoverAddrs := \<lambda>j d. (fst (discoverAddrs e j d), None)\<rparr>)
          cfg addrs disco i attempt))
     = filter isJoin (fst (lanIteration e cfg addrs disco i attempt))"
  by (simp add: lanIteration_joins lanServers_erase)

lemma lanIteration_exhausted_only_by_budget:
  assumes "snd (lanIteration e cfg addrs disco i attempt) = Return Exhausted"
  shows "0 <s RetryMaxAttempts cfg \<and> RetryMaxAttempts cfg <s attempt + 1"
  using assms
  by (simp add: lanIteration_cases afterFailure_cases split: if_splits)

text \<open>
  C4 as stated does not hold in its second part: when \<open>discover.Addrs\<close> returns an error
  the code logs it and goes on with the \<open>servers\<close> it was handed, which it never clears.
  With an answer that carries an address next to the error, the list for the join is
  that address followed by the static ones, not the static addresses alone.
\<close>

theorem failed_discovery_addresses_are_joined:
  "snd (discoverAddrs (acceptingFrom 0 ([''10.9.9.9''], Some ''discover-mock: partial result''))
          0 ''provider=mock key=value'') \<noteq> None
   \<and> lanServers (acceptingFrom 0 ([''10.9.9.9''], Some ''discover-mock: partial result''))
        [''10.0.0.1''] ''provider=mock key=value'' 0 = [''10.9.9.9'', ''10.0.0.1'']
   \<and> lanServers (acceptingFrom 0 ([''10.9.9.9''], Some ''discover-mock: partial result''))
        [''10.0.0.1''] ''provider=mock key=value'' 0 \<noteq> [''10.0.0.1'']
   \<and> retryJoin 1 (acceptingFrom 0 ([''10.9.9.9''], Some ''discover-mock: partial result''))
        (sampleConfig [''provider=mock key=value'', ''10.0.0.1''] [] 1) =
       (Succeeded,
        [Printf ''[INFO] agent: Joining cluster...'' [],
         DiscoverCall ''provider=mock key=value'',
         Printf ''[ERR] agent: %s'' [ErrArg (Some ''discover-mock: partial result'')],
         Printf ''[ERR] agent: Discovered servers: %v'' [StrsArg [''10.9.9.9'']],
         JoinLANCall [''10.9.9.9'', ''10.0.0.1''],
         Printf ''[INFO] agent: Join completed. Synced with %d initial agents'' [IntArg 3]])"
  by code_simp

text \<open>
  C4 (as amended). In every iteration of the LAN loop the list given to \<open>JoinLAN\<close> is the
  list that discovery returned in this iteration followed by the static addresses (the
  static addresses alone when no directive is configured), and \<open>JoinLAN\<close> is called
  exactly when that list is not empty. If the resolution fails, that is, if
  \<open>discover.Addrs\<close> returns an error, the list is still whatever addresses came with the
  error followed by the static addresses; it is the static addresses alone when none
  came with it. A join attempt is still made when the static addresses are not empty,
  and a join that succeeds ends the controller with success. The error of the
  resolution never ends the controller: what the iteration decides (success, exhaustion
  or another round, and with which counter) and the join call it makes are the same as
  if discovery had returned the same addresses without an error, and the iteration ends
  in exhaustion only through the guard on the maximum number of attempts.
\<close>

theorem lan_candidates_keep_what_discovery_returned:
  "lanServers e addrs disco i =
     (if disco \<noteq> [] then fst (discoverAddrs e i disco) else []) @ addrs
   \<and> filter isJoin (fst (lanIteration e cfg addrs disco i attempt)) =
       (if lanServers e addrs disco i = [] then []
        else [JoinLANCall (lanServers e addrs disco i)])
   \<and> (disco \<noteq> [] \<and> snd (discoverAddrs e i disco) \<noteq> None \<longrightarrow>
        lanServers e addrs disco i = fst (discoverAddrs e i disco) @ addrs
        \<and> (fst (discoverAddrs e i disco) = [] \<longrightarrow> lanServers e addrs disco i = addrs)
        \<and> (addrs \<noteq> [] \<longrightarrow>
             filter isJoin (fst (lanIteration e cfg addrs disco i attempt)) =
               [JoinLANCall (fst (discoverAddrs e i disco) @ addrs)])
        \<and> (addrs \<noteq> [] \<and> snd (JoinLAN e i (fst (discoverAddrs e i disco) @ addrs)) = None
             \<longrightarrow> snd (lanIteration e cfg addrs disco i attempt) = Return Succeeded))
   \<and> snd (lanIteration (e\<lparr>discoverAddrs := \<lambda>j d. (fst (discoverAddrs e j d), None)\<rparr>)
            cfg addrs disco i attempt)
       = snd (lanIteration e cfg addrs disco i attempt)
   \<and> filter isJoin
        (fst (lanIteration (e\<lparr>discoverAddrs := \<lambda>j d. (fst (discoverAddrs e j d), None)\<rparr>)
                cfg addrs disco i attempt))
       = filter isJoin (fst (lanIteration e cfg addrs disco i attempt))
   \<and> (snd (lanIteration e cfg addrs disco i attempt) = Return Exhausted \<longrightarrow>
        0 <s RetryMaxAttempts cfg \<and> RetryMaxAttempts cfg <s attempt + 1)"
proof (intro conjI impI)
  show "lanServers e addrs disco i =
     (if disco \<noteq> [] then fst (discoverAddrs e i disco) else []) @ addrs"
    by (rule lanServers_eq)
  show "filter isJoin (fst (lanIteration e cfg addrs disco i attempt)) =
       (if lanServers e addrs disco i = [] then []
        else [JoinLANCall (lanServers e addrs disco i)])"
    by (rule lanIteration_joins)
  show "snd (lanIteration (e\<lparr>discoverAddrs := \<lambda>j d. (fst (discoverAddrs e j d), None)\<rparr>)
            cfg addrs disco i attempt)
       = snd (lanIteration e cfg addrs disco i attempt)"
    by (rule lanIteration_erase)
  show "filter isJoin
        (fst (lanIteration (e\<lparr>discoverAddrs := \<lambda>j d. (fst (discoverAddrs e j d), None)\<rparr>)
                cfg addrs disco i attempt))
       = filter isJoin (fst (lanIteration e cfg addrs disco i attempt))"
    by (rule lanIteration_erase_calls)
next
  assume "snd (lanIteration e cfg addrs disco i attempt) = Return Exhausted"
  then show "0 <s RetryMaxAttempts cfg" "RetryMaxAttempts cfg <s attempt + 1"
    by (simp_all add: lanIteration_exhausted_only_by_budget)
next
  assume f: "disco \<noteq> [] \<and> snd (discoverAddrs e i disco) \<noteq> None"
  then show s: "lanServers e addrs disco i = fst (discoverAddrs e i disco) @ addrs"
    by (simp add: lanServers_eq)
  {
    assume "fst (discoverAddrs e i disco) = []"
    with s show "lanServers e addrs disco i = addrs" by simp
  }
  {
    assume "addrs \<noteq> []"
    with s show "filter isJoin (fst (lanIteration e cfg addrs disco i attempt)) =
                   [JoinLANCall (fst (discoverAddrs e i disco) @ addrs)]"
      by (simp add: lanIteration_joins)
  }
  {
    assume "addrs \<noteq> [] \<and> snd (JoinLAN e i (fst (discoverAddrs e i disco) @ addrs)) = None"
    with s show "snd (lanIteration e cfg addrs disco i attempt) = Return Succeeded"
      by (simp add: lanIteration_cases)
  }
qed

theorem lan_candidates_keep_what_discovery_returned_witness:
  "''provider=mock key=value'' \<noteq> []
   \<and> snd (discoverAddrs (acceptingFrom 0 ([], Some ''discover-mock: timeout'')) 0
            ''provider=mock key=value'') \<noteq> None
   \<and> fst (discoverAddrs (acceptingFrom 0 ([], Some ''discover-mock: timeout'')) 0
            ''provider=mock key=value'') = []
   \<and> [''10.0.0.1'', ''10.0.0.2''] \<noteq> []
   \<and> snd (JoinLAN (acceptingFrom 0 ([], Some ''discover-mock: timeout'')) 0
            [''10.0.0.1'', ''10.0.0.2'']) = None
   \<and> lanServers (acceptingFrom 0 ([], Some ''discover-mock: timeout''))
        [''10.0.0.1'', ''10.0.0.2''] ''provider=mock key=value'' 0 = [''10.0.0.1'', ''10.0.0.2'']
   \<and> filter isJoin (fst (lanIteration (acceptingFrom 0 ([], Some ''discover-mock: timeout''))
        (sampleConfig [''10.0.0.1'', ''provider=mock key=value'', ''10.0.0.2''] [] 1)
        [''10.0.0.1'', ''10.0.0.2''] ''provider=mock key=value'' 0 0))
       = [JoinLANCall [''10.0.0.1'', ''10.0.0.2'']]
   \<and> snd (lanIteration (acceptingFrom 0 ([], Some ''discover-mock: timeout''))
        (sampleConfig [''10.0.0.1'', ''provider=mock key=value'', ''10.0.0.2''] [] 1)
        [''10.0.0.1'', ''10.0.0.2''] ''provider=mock key=value'' 0 0) = Return Succeeded
   \<and> snd (discoverAddrs (acceptingFrom 0 ([''10.9.9.9''], Some ''discover-mock: partial result''))
            0 ''provider=mock key=value'') \<noteq> None
   \<and> filter isJoin
        (fst (lanIteration (acceptingFrom 0 ([''10.9.9.9''], Some ''discover-mock: partial result''))
        (sampleConfig [''provider=mock key=value'', ''10.0.0.1''] [] 1)
        [''10.0.0.1''] ''provider=mock key=value'' 0 0))
       = [JoinLANCall [''10.9.9.9'', ''10.0.0.1'']]
   \<and> snd (lanIteration (acceptingFrom 0 ([''10.9.9.9''], Some ''discover-mock: partial result''))
        (sampleConfig [''provider=mock key=value'', ''10.0.0.1''] [] 1)
        [''10.0.0.1''] ''provider=mock key=value'' 0 0) = Return Succeeded"
proof -
  let ?e = "acceptingFrom 0 ([], Some ''discover-mock: timeout'')"
  let ?p = "acceptingFrom 0 ([''10.9.9.9''], Some ''discover-mock: partial result'')"
  have d: "''provider=mock key=value'' \<noteq> []
           \<and> snd (discoverAddrs ?e 0 ''provider=mock key=value'') \<noteq> None"
    "fst (discoverAddrs ?e 0 ''provider=mock key=value'') = []"
    by (simp_all add: acceptingFrom_def)
  have j: "[''10.0.0.1'', ''10.0.0.2''] \<noteq> []
           \<and> snd (JoinLAN ?e 0 [''10.0.0.1'', ''10.0.0.2'']) = None"
    by (simp add: acceptingFrom_def)
  have dp: "''provider=mock key=value'' \<noteq> []
           \<and> snd (discoverAddrs ?p 0 ''provider=mock key=value'') \<noteq> None"
    "fst (discoverAddrs ?p 0 ''provider=mock key=value'') = [''10.9.9.9'']"
    by (simp_all add: acceptingFrom_def)
  have jp: "[''10.0.0.1''] \<noteq> []
           \<and> snd (JoinLAN ?p 0 ([''10.9.9.9''] @ [''10.0.0.1''])) = None"
    by (simp add: acceptingFrom_def)
  from lan_candidates_keep_what_discovery_returned
         [of ?e "[''10.0.0.1'', ''10.0.0.2'']" "''provider=mock key=value''" 0
             "sampleConfig [''10.0.0.1'', ''provider=mock key=value'', ''10.0.0.2''] [] 1" 0]
       lan_candidates_keep_what_discovery_returned
         [of ?p "[''10.0.0.1'']" "''provider=mock key=value''" 0
             "sampleConfig [''provider=mock key=value'', ''10.0.0.1''] [] 1" 0]
       d j dp jp
  show ?thesis by simp
qed

subsection \<open>Runs in which every join fails\<close>

text \<open>A loop whose every iteration fails, with the events \<open>pre i\<close> before the failure.\<close>

lemma loop_exhausts:
  fixes body :: "nat \<Rightarrow> 'w::len word \<Rightarrow> 'w word event list \<times> 'w word step"
  assumes body: "\<And>i a. body i a =
            (pre i @ fst (afterFailure (of_nat n) iv ex wn a (er i)),
             snd (afterFailure (of_nat n) iv ex wn a (er i)))"
    and pre: "\<And>i. joinAttempts (pre i) = 1" "\<And>i. terminalErrors (pre i) = 0"
      "\<And>i. sleeps (pre i) = 0"
    and n: "0 < n" "n + 1 < 2 ^ (LENGTH('w) - 1)"
  shows "k \<le> n \<Longrightarrow> n - k < fuel \<Longrightarrow>
           fst (loop body fuel i (of_nat k)) = Exhausted
           \<and> joinAttempts (snd (loop body fuel i (of_nat k))) = n - k + 1
           \<and> terminalErrors (snd (loop body fuel i (of_nat k))) = 1
           \<and> sleeps (snd (loop body fuel i (of_nat k))) = n - k
           \<and> last (snd (loop body fuel i (of_nat k))) = ChanSend ex"
proof (induction fuel arbitrary: i k)
  case 0
  then show ?case by simp
next
  case (Suc fuel)
  note af = afterFailure_of_nat[OF n Suc.prems(1), of iv ex wn "er i"]
  show ?case
  proof (cases "k = n")
    case True
    with af body[of i "of_nat k"]
    have "body i (of_nat k) = (pre i @ [ChanSend ex], Return Exhausted)" by simp
    from loop_Return[of body i "of_nat k" "pre i @ [ChanSend ex]" Exhausted fuel, OF this]
      pre[of i] True show ?thesis
      by (simp add: joinAttempts_def terminalErrors_def sleeps_def)
  next
    case False
    with af body[of i "of_nat k"]
    have b: "body i (of_nat k) =
               (pre i @ [Printf wn [ErrArg (er i), DurArg iv], Sleep iv], Continue (of_nat (Suc k)))"
      by simp
    from False Suc.prems have "Suc k \<le> n" "n - Suc k < fuel" by simp_all
    from Suc.IH[OF this, of "Suc i"]
    have ih: "fst (loop body fuel (Suc i) (of_nat (Suc k))) = Exhausted"
      "joinAttempts (snd (loop body fuel (Suc i) (of_nat (Suc k)))) = n - Suc k + 1"
      "terminalErrors (snd (loop body fuel (Suc i) (of_nat (Suc k)))) = 1"
      "last (snd (loop body fuel (Suc i) (of_nat (Suc k)))) = ChanSend ex"
      "sleeps (snd (loop body fuel (Suc i) (of_nat (Suc k)))) = n - Suc k"
      by simp_all
    from ih(3) have ne: "snd (loop body fuel (Suc i) (of_nat (Suc k))) \<noteq> []"
      by (auto simp: terminalErrors_def)
    have j: "joinAttempts ([Printf wn [ErrArg (er i), DurArg iv], Sleep iv] :: 'w word event list) = 0"
      "terminalErrors ([Printf wn [ErrArg (er i), DurArg iv], Sleep iv] :: 'w word event list) = 0"
      "sleeps ([Printf wn [ErrArg (er i), DurArg iv], Sleep iv] :: 'w word event list) = 1"
      by (simp_all add: joinAttempts_def terminalErrors_def sleeps_def)
    note c = loop_Continue[of body i "of_nat k" _ "of_nat (Suc k)" fuel, OF b]
    have "fst (loop body (Suc fuel) i (of_nat k)) = Exhausted"
      using ih(1) by (simp only: c fst_conv)
    moreover have "joinAttempts (snd (loop body (Suc fuel) i (of_nat k))) = n - k + 1"
    proof -
      have "joinAttempts (snd (loop body (Suc fuel) i (of_nat k))) = 1 + 0 + (n - Suc k + 1)"
        by (simp only: c snd_conv counts_append pre(1) j(1) ih(2))
      with \<open>Suc k \<le> n\<close> show ?thesis by simp
    qed
    moreover have "terminalErrors (snd (loop body (Suc fuel) i (of_nat k))) = 1"
      by (simp only: c snd_conv counts_append ih(3) pre(2) j(2))
    moreover have "sleeps (snd (loop body (Suc fuel) i (of_nat k))) = n - k"
    proof -
      have "sleeps (snd (loop body (Suc fuel) i (of_nat k))) = 0 + 1 + (n - Suc k)"
        by (simp only: c snd_conv counts_append pre(3) j(3) ih(5))
      with \<open>Suc k \<le> n\<close> show ?thesis by simp
    qed
    moreover have "last (snd (loop body (Suc fuel) i (of_nat k))) = ChanSend ex"
      using ih(4) ne unfolding c by simp
    ultimately show ?thesis by blast
  qed
qed

lemma loop_retries_forever:
  fixes body :: "nat \<Rightarrow> 'w::len word \<Rightarrow> 'w word event list \<times> 'w word step"
  assumes body: "\<And>j a. j < fuel \<Longrightarrow> body (i + j) a =
            (pre (i + j) @ fst (afterFailure 0 iv ex wn a (er (i + j))),
             snd (afterFailure 0 iv ex wn a (er (i + j))))"
    and pre: "\<And>j. sleeps (pre j) = 0"
  shows "fst (loop body fuel i a) = Retrying \<and> sleeps (snd (loop body fuel i a)) = fuel"
  using body
proof (induction fuel arbitrary: i a)
  case 0
  show ?case by (simp add: sleeps_def)
next
  case (Suc fuel)
  from Suc.prems[of 0 a]
  have b: "body i a = (pre i @ [Printf wn [ErrArg (er i), DurArg iv], Sleep iv], Continue (a + 1))"
    by (simp add: afterFailure_zero)
  have rest: "\<And>j a. j < fuel \<Longrightarrow> body (Suc i + j) a =
            (pre (Suc i + j) @ fst (afterFailure 0 iv ex wn a (er (Suc i + j))),
             snd (afterFailure 0 iv ex wn a (er (Suc i + j))))"
    using Suc.prems[of "Suc j" for j] by simp
  note c = loop_Continue[of body i a _ "a + 1" fuel, OF b]
  from Suc.IH[OF rest, of "a + 1"] pre[of i] show ?case
    by (simp only: c fst_conv snd_conv counts_append)
       (simp add: sleeps_def)
qed

lemma lanIteration_always_failing:
  assumes "lanServers e addrs disco i \<noteq> []"
    "snd (JoinLAN e i (lanServers e addrs disco i)) \<noteq> None"
  shows "lanIteration e cfg addrs disco i a =
     ((snd (lanDiscover e disco i) @ [JoinLANCall (lanServers e addrs disco i)])
        @ fst (afterFailure (RetryMaxAttempts cfg) (RetryInterval cfg)
                 ''agent: max join retry exhausted, exiting''
                 ''[WARN] agent: Join failed: %v, retrying in %v''
                 a (snd (fst (lanDiscover e disco i)))),
      snd (afterFailure (RetryMaxAttempts cfg) (RetryInterval cfg)
                 ''agent: max join retry exhausted, exiting''
                 ''[WARN] agent: Join failed: %v, retrying in %v''
                 a (snd (fst (lanDiscover e disco i)))))"
  by (simp add: lanIteration_cases assms)

lemma wanIteration_always_failing:
  assumes "snd (JoinWAN e i (RetryJoinWan cfg)) \<noteq> None"
  shows "wanIteration e cfg i a =
     ([JoinWANCall (RetryJoinWan cfg)]
        @ fst (afterFailure (RetryMaxAttemptsWan cfg) (RetryIntervalWan cfg)
                 ''agent: max join -wan retry exhausted, exiting''
                 ''[WARN] agent: Join -wan failed: %v, retrying in %v''
                 a (snd (JoinWAN e i (RetryJoinWan cfg)))),
      snd (afterFailure (RetryMaxAttemptsWan cfg) (RetryIntervalWan cfg)
                 ''agent: max join -wan retry exhausted, exiting''
                 ''[WARN] agent: Join -wan failed: %v, retrying in %v''
                 a (snd (JoinWAN e i (RetryJoinWan cfg)))))"
  by (simp add: wanIteration_cases assms)

lemma counts_Printf_Cons [simp]:
  "joinAttempts (Printf f args # tr) = joinAttempts tr"
  "terminalErrors (Printf f args # tr) = terminalErrors tr"
  "sleeps (Printf f args # tr) = sleeps tr"
  by (simp_all add: joinAttempts_def terminalErrors_def sleeps_def)

lemma retryJoin_unfold:
  assumes "RetryJoin cfg \<noteq> []" "splitAddrs (RetryJoin cfg) ([], []) = (addrs, disco)"
  shows "retryJoin fuel e cfg =
           (fst (loop (lanIteration e cfg addrs disco) fuel 0 0),
            Printf ''[INFO] agent: Joining cluster...'' []
              # snd (loop (lanIteration e cfg addrs disco) fuel 0 0))"
  using assms by (simp add: retryJoin_def case_prod_beta)

lemma retryJoinWan_unfold:
  assumes "RetryJoinWan cfg \<noteq> []"
  shows "retryJoinWan fuel e cfg =
           (fst (loop (wanIteration e cfg) fuel 0 0),
            Printf ''[INFO] agent: Joining WAN cluster...'' []
              # snd (loop (wanIteration e cfg) fuel 0 0))"
  using assms by (simp add: retryJoinWan_def case_prod_beta)

lemma retryJoin_exhausts:
  fixes e :: "'w::len word env"
  assumes n: "0 < n" "n + 1 < 2 ^ (LENGTH('w) - 1)" "n < fuel"
    and cfg: "RetryJoin cfg \<noteq> []" "RetryMaxAttempts cfg = of_nat n"
      "splitAddrs (RetryJoin cfg) ([], []) = (addrs, disco)"
    and fail: "\<And>i. lanServers e addrs disco i \<noteq> []
                 \<and> snd (JoinLAN e i (lanServers e addrs disco i)) \<noteq> None"
  shows "fst (retryJoin fuel e cfg) = Exhausted
       \<and> joinAttempts (snd (retryJoin fuel e cfg)) = n + 1
       \<and> terminalErrors (snd (retryJoin fuel e cfg)) = 1
       \<and> sleeps (snd (retryJoin fuel e cfg)) = n
       \<and> last (snd (retryJoin fuel e cfg)) = ChanSend ''agent: max join retry exhausted, exiting''"
proof -
  let ?body = "lanIteration e cfg addrs disco"
  let ?pre = "\<lambda>i. snd (lanDiscover e disco i) @ [JoinLANCall (lanServers e addrs disco i)]"
  have body: "\<And>i a. ?body i a =
       (?pre i @ fst (afterFailure (of_nat n) (RetryInterval cfg)
                 ''agent: max join retry exhausted, exiting''
                 ''[WARN] agent: Join failed: %v, retrying in %v''
                 a (snd (fst (lanDiscover e disco i)))),
        snd (afterFailure (of_nat n) (RetryInterval cfg)
                 ''agent: max join retry exhausted, exiting''
                 ''[WARN] agent: Join failed: %v, retrying in %v''
                 a (snd (fst (lanDiscover e disco i)))))"
    using lanIteration_always_failing[of e addrs disco _ cfg] fail cfg(2) by simp
  have pre: "\<And>i. joinAttempts (?pre i) = 1" "\<And>i. terminalErrors (?pre i) = 0"
    "\<And>i. sleeps (?pre i) = 0"
    by (simp_all add: joinAttempts_def terminalErrors_def sleeps_def lanDiscover_counts)
  have "0 \<le> n" "n - 0 < fuel" using n by simp_all
  from loop_exhausts[of ?body ?pre n, OF body pre n(1,2) this, of 0]
  have l: "fst (loop ?body fuel 0 0) = Exhausted"
    "joinAttempts (snd (loop ?body fuel 0 0)) = n + 1"
    "terminalErrors (snd (loop ?body fuel 0 0)) = 1"
    "sleeps (snd (loop ?body fuel 0 0)) = n"
    "last (snd (loop ?body fuel 0 0)) = ChanSend ''agent: max join retry exhausted, exiting''"
    by simp_all
  from l(3) have "snd (loop ?body fuel 0 0) \<noteq> []" by (auto simp: terminalErrors_def)
  with l show ?thesis
    by (simp add: retryJoin_unfold[OF cfg(1,3)])
qed

lemma retryJoinWan_exhausts:
  fixes e :: "'w::len word env"
  assumes n: "0 < n" "n + 1 < 2 ^ (LENGTH('w) - 1)" "n < fuel"
    and cfg: "RetryJoinWan cfg \<noteq> []" "RetryMaxAttemptsWan cfg = of_nat n"
    and fail: "\<And>i. snd (JoinWAN e i (RetryJoinWan cfg)) \<noteq> None"
  shows "fst (retryJoinWan fuel e cfg) = Exhausted
       \<and> joinAttempts (snd (retryJoinWan fuel e cfg)) = n + 1
       \<and> terminalErrors (snd (retryJoinWan fuel e cfg)) = 1
       \<and> sleeps (snd (retryJoinWan fuel e cfg)) = n
       \<and> last (snd (retryJoinWan fuel e cfg)) =
           ChanSend ''agent: max join -wan retry exhausted, exiting''"
proof -
  let ?body = "wanIteration e cfg"
  let ?pre = "\<lambda>i::nat. [JoinWANCall (RetryJoinWan cfg) :: 'w word event]"
  have body: "\<And>i a. ?body i a =
       (?pre i @ fst (afterFailure (of_nat n) (RetryIntervalWan cfg)
                 ''agent: max join -wan retry exhausted, exiting''
                 ''[WARN] agent: Join -wan failed: %v, retrying in %v''
                 a (snd (JoinWAN e i (RetryJoinWan cfg)))),
        snd (afterFailure (of_nat n) (RetryIntervalWan cfg)
                 ''agent: max join -wan retry exhausted, exiting''
                 ''[WARN] agent: Join -wan failed: %v, retrying in %v''
                 a (snd (JoinWAN e i (RetryJoinWan cfg)))))"
    using wanIteration_always_failing[of e _ cfg] fail cfg(2) by simp
  have pre: "\<And>i. joinAttempts (?pre i) = 1" "\<And>i. terminalErrors (?pre i) = 0"
    "\<And>i. sleeps (?pre i) = 0"
    by (simp_all add: joinAttempts_def terminalErrors_def sleeps_def)
  have "0 \<le> n" "n - 0 < fuel" using n by simp_all
  from loop_exhausts[of ?body ?pre n, OF body pre n(1,2) this, of 0]
  have l: "fst (loop ?body fuel 0 0) = Exhausted"
    "joinAttempts (snd (loop ?body fuel 0 0)) = n + 1"
    "terminalErrors (snd (loop ?body fuel 0 0)) = 1"
    "sleeps (snd (loop ?body fuel 0 0)) = n"
    "last (snd (loop ?body fuel 0 0)) = ChanSend ''agent: max join -wan retry exhausted, exiting''"
    by simp_all
  from l(3) have "snd (loop ?body fuel 0 0) \<noteq> []" by (auto simp: terminalErrors_def)
  with l show ?thesis
    by (simp add: retryJoinWan_unfold[OF cfg(1)])
qed

text \<open>
  C1 as stated, with exactly as many join attempts as the configured maximum, does not
  hold. With a maximum of 1 and joins that are always refused, each controller calls its
  join operation twice before it sends the terminal error: after the first failure the
  counter is 1, which is not greater than the maximum, so the controller sleeps and
  tries again. The maximum bounds the retries, not the attempts.
\<close>

theorem max_attempts_one_joins_twice:
  "retryJoin 5 (refusing ([], None)) (sampleConfig [''10.0.0.1''] [''10.1.0.1''] 1) =
     (Exhausted,
      [Printf ''[INFO] agent: Joining cluster...'' [],
       JoinLANCall [''10.0.0.1''],
       Printf ''[WARN] agent: Join failed: %v, retrying in %v'' [ErrArg None, DurArg 30],
       Sleep 30,
       JoinLANCall [''10.0.0.1''],
       ChanSend ''agent: max join retry exhausted, exiting''])
   \<and> joinAttempts (snd (retryJoin 5 (refusing ([], None))
                           (sampleConfig [''10.0.0.1''] [''10.1.0.1''] 1))) \<noteq> 1
   \<and> retryJoinWan 5 (refusing ([], None)) (sampleConfig [''10.0.0.1''] [''10.1.0.1''] 1) =
     (Exhausted,
      [Printf ''[INFO] agent: Joining WAN cluster...'' [],
       JoinWANCall [''10.1.0.1''],
       Printf ''[WARN] agent: Join -wan failed: %v, retrying in %v''
         [ErrArg (Some ''connection refused''), DurArg 30],
       Sleep 30,
       JoinWANCall [''10.1.0.1''],
       ChanSend ''agent: max join -wan retry exhausted, exiting''])
   \<and> joinAttempts (snd (retryJoinWan 5 (refusing ([], None))
                           (sampleConfig [''10.0.0.1''] [''10.1.0.1''] 1))) \<noteq> 1"
  by code_simp

text \<open>
  C1 (as amended). For the LAN (resp. WAN) controller with a maximum of \<open>n > 0\<close> attempts,
  \<open>n + 1\<close> representable in Go's \<open>int\<close>, and a join operation that is called in every
  iteration (for LAN: the list for the join is never empty) and fails on every call,
  exactly \<open>n + 1\<close> join attempts are performed, the first one and \<open>n\<close> retries with \<open>n\<close>
  sleeps between them; then exactly one terminal error is sent on the channel, as the
  last event of the run, and the controller has returned: however long it is observed
  afterwards, there is no further attempt.
\<close>

theorem exhausted_after_max_plus_one_attempts:
  fixes e :: "'w::len word env"
  assumes "0 < n" "n + 1 < 2 ^ (LENGTH('w) - 1)" "n < fuel"
  shows
    "(RetryJoin cfg \<noteq> [] \<and> RetryMaxAttempts cfg = of_nat n
      \<and> splitAddrs (RetryJoin cfg) ([], []) = (addrs, disco)
      \<and> (\<forall>i. lanServers e addrs disco i \<noteq> []
              \<and> snd (JoinLAN e i (lanServers e addrs disco i)) \<noteq> None)
      \<longrightarrow>
         fst (retryJoin fuel e cfg) = Exhausted
       \<and> joinAttempts (snd (retryJoin fuel e cfg)) = n + 1
       \<and> terminalErrors (snd (retryJoin fuel e cfg)) = 1
       \<and> sleeps (snd (retryJoin fuel e cfg)) = n
       \<and> last (snd (retryJoin fuel e cfg)) =
           ChanSend ''agent: max join retry exhausted, exiting'')
   \<and> (RetryJoinWan cfg \<noteq> [] \<and> RetryMaxAttemptsWan cfg = of_nat n
      \<and> (\<forall>i. snd (JoinWAN e i (RetryJoinWan cfg)) \<noteq> None)
      \<longrightarrow>
         fst (retryJoinWan fuel e cfg) = Exhausted
       \<and> joinAttempts (snd (retryJoinWan fuel e cfg)) = n + 1
       \<and> terminalErrors (snd (retryJoinWan fuel e cfg)) = 1
       \<and> sleeps (snd (retryJoinWan fuel e cfg)) = n
       \<and> last (snd (retryJoinWan fuel e cfg)) =
           ChanSend ''agent: max join -wan retry exhausted, exiting'')"
proof (rule conjI; rule impI)
  assume "RetryJoin cfg \<noteq> [] \<and> RetryMaxAttempts cfg = of_nat n
      \<and> splitAddrs (RetryJoin cfg) ([], []) = (addrs, disco)
      \<and> (\<forall>i. lanServers e addrs disco i \<noteq> []
              \<and> snd (JoinLAN e i (lanServers e addrs disco i)) \<noteq> None)"
  then have cfg: "RetryJoin cfg \<noteq> []" "RetryMaxAttempts cfg = of_nat n"
      "splitAddrs (RetryJoin cfg) ([], []) = (addrs, disco)"
    and fail: "\<And>i. lanServers e addrs disco i \<noteq> []
              \<and> snd (JoinLAN e i (lanServers e addrs disco i)) \<noteq> None"
    by blast+
  show "fst (retryJoin fuel e cfg) = Exhausted
       \<and> joinAttempts (snd (retryJoin fuel e cfg)) = n + 1
       \<and> terminalErrors (snd (retryJoin fuel e cfg)) = 1
       \<and> sleeps (snd (retryJoin fuel e cfg)) = n
       \<and> last (snd (retryJoin fuel e cfg)) =
           ChanSend ''agent: max join retry exhausted, exiting''"
    by (rule retryJoin_exhausts[OF assms cfg fail])
next
  assume "RetryJoinWan cfg \<noteq> [] \<and> RetryMaxAttemptsWan cfg = of_nat n
      \<and> (\<forall>i. snd (JoinWAN e i (RetryJoinWan cfg)) \<noteq> None)"
  then have cfg: "RetryJoinWan cfg \<noteq> []" "RetryMaxAttemptsWan cfg = of_nat n"
    and fail: "\<And>i. snd (JoinWAN e i (RetryJoinWan cfg)) \<noteq> None"
    by blast+
  show "fst (retryJoinWan fuel e cfg) = Exhausted
       \<and> joinAttempts (snd (retryJoinWan fuel e cfg)) = n + 1
       \<and> terminalErrors (snd (retryJoinWan fuel e cfg)) = 1
       \<and> sleeps (snd (retryJoinWan fuel e cfg)) = n
       \<and> last (snd (retryJoinWan fuel e cfg)) =
           ChanSend ''agent: max join -wan retry exhausted, exiting''"
    by (rule retryJoinWan_exhausts[OF assms cfg fail])
qed

theorem exhausted_after_max_plus_one_attempts_witness:
  "fst (retryJoin 7 (refusing ([], None)) (sampleConfig [''10.0.0.1''] [''10.1.0.1''] 2))
     = Exhausted
   \<and> joinAttempts (snd (retryJoin 7 (refusing ([], None))
                           (sampleConfig [''10.0.0.1''] [''10.1.0.1''] 2))) = 3
   \<and> terminalErrors (snd (retryJoin 7 (refusing ([], None))
                           (sampleConfig [''10.0.0.1''] [''10.1.0.1''] 2))) = 1
   \<and> fst (retryJoinWan 7 (refusing ([], None)) (sampleConfig [''10.0.0.1''] [''10.1.0.1''] 2))
     = Exhausted
   \<and> joinAttempts (snd (retryJoinWan 7 (refusing ([], None))
                           (sampleConfig [''10.0.0.1''] [''10.1.0.1''] 2))) = 3
   \<and> terminalErrors (snd (retryJoinWan 7 (refusing ([], None))
                           (sampleConfig [''10.0.0.1''] [''10.1.0.1''] 2))) = 1"
proof -
  let ?e = "refusing ([], None)"
  let ?cfg = "sampleConfig [''10.0.0.1''] [''10.1.0.1''] 2"
  have n: "0 < (2::nat)" "(2::nat) + 1 < 2 ^ (LENGTH(64) - 1)" "(2::nat) < 7"
    by simp_all
  have lan: "RetryJoin ?cfg \<noteq> [] \<and> RetryMaxAttempts ?cfg = of_nat 2
      \<and> splitAddrs (RetryJoin ?cfg) ([], []) = ([''10.0.0.1''], [])
      \<and> (\<forall>i. lanServers ?e [''10.0.0.1''] [] i \<noteq> []
              \<and> snd (JoinLAN ?e i (lanServers ?e [''10.0.0.1''] [] i)) \<noteq> None)"
    by (simp add: sampleConfig_def refusing_def lanServers_def lanDiscover_def)
  have wan: "RetryJoinWan ?cfg \<noteq> [] \<and> RetryMaxAttemptsWan ?cfg = of_nat 2
      \<and> (\<forall>i. snd (JoinWAN ?e i (RetryJoinWan ?cfg)) \<noteq> None)"
    by (simp add: sampleConfig_def refusing_def)
  from exhausted_after_max_plus_one_attempts [OF n, of ?cfg "[''10.0.0.1'']" "[]" ?e] lan wan
  show ?thesis by simp
qed

subsection \<open>What a run can look like\<close>

lemma loop_status:
  assumes "regular okfmt exmsg iv body"
  shows "fst (loop body f i a) \<noteq> NotStarted"
    and "fst (loop body f i a) = Retrying \<Longrightarrow>
           terminalErrors (snd (loop body f i a)) = 0 \<and> sleeps (snd (loop body f i a)) = f"
    and "fst (loop body f i a) = Succeeded \<Longrightarrow>
           terminalErrors (snd (loop body f i a)) = 0 \<and> sleeps (snd (loop body f i a)) < f
           \<and> snd (loop body f i a) \<noteq> []
           \<and> (\<exists>n. last (snd (loop body f i a)) = Printf okfmt [IntArg n])"
    and "fst (loop body f i a) = Exhausted \<Longrightarrow>
           terminalErrors (snd (loop body f i a)) = 1 \<and> sleeps (snd (loop body f i a)) < f
           \<and> snd (loop body f i a) \<noteq> []
           \<and> last (snd (loop body f i a)) = ChanSend exmsg"
  using loop_regular[OF assms, of f i a]
  by (cases "loop body f i a"; cases "fst (loop body f i a)"; simp)+

lemma loop_sends_le_1:
  assumes "regular okfmt exmsg iv body"
  shows "terminalErrors (snd (loop body f i a)) \<le> 1"
  using loop_status[OF assms, of f i a]
  by (cases "fst (loop body f i a)") simp_all

lemma lan_never_exhausted_zero:
  "RetryMaxAttempts cfg = 0 \<Longrightarrow> snd (lanIteration e cfg addrs disco i a) \<noteq> Return Exhausted"
  by (simp add: lanIteration_cases afterFailure_cases)

lemma wan_never_exhausted_zero:
  "RetryMaxAttemptsWan cfg = 0 \<Longrightarrow> snd (wanIteration e cfg i a) \<noteq> Return Exhausted"
  by (simp add: wanIteration_cases afterFailure_cases)

lemma retryJoin_zero_no_terminal:
  assumes "RetryMaxAttempts cfg = 0"
  shows "fst (retryJoin fuel e cfg) \<noteq> Exhausted \<and> terminalErrors (snd (retryJoin fuel e cfg)) = 0"
proof (cases "RetryJoin cfg = []")
  case True
  then show ?thesis by (simp add: retryJoin_def terminalErrors_def)
next
  case False
  obtain addrs disco where s: "splitAddrs (RetryJoin cfg) ([], []) = (addrs, disco)"
    by (cases "splitAddrs (RetryJoin cfg) ([], [])")
  let ?l = "loop (lanIteration e cfg addrs disco) fuel 0 0"
  have ne: "fst ?l \<noteq> Exhausted"
    by (rule loop_never_exhausted) (rule lan_never_exhausted_zero[OF assms])
  have "terminalErrors (snd ?l) = 0"
    using loop_status[OF regular_lan, of e cfg addrs disco fuel 0 0] ne
    by (cases "fst ?l") simp_all
  with ne show ?thesis by (simp add: retryJoin_unfold[OF False s])
qed

lemma retryJoinWan_zero_no_terminal:
  assumes "RetryMaxAttemptsWan cfg = 0"
  shows "fst (retryJoinWan fuel e cfg) \<noteq> Exhausted
         \<and> terminalErrors (snd (retryJoinWan fuel e cfg)) = 0"
proof (cases "RetryJoinWan cfg = []")
  case True
  then show ?thesis by (simp add: retryJoinWan_def terminalErrors_def)
next
  case False
  let ?l = "loop (wanIteration e cfg) fuel 0 0"
  have ne: "fst ?l \<noteq> Exhausted"
    by (rule loop_never_exhausted) (rule wan_never_exhausted_zero[OF assms])
  have "terminalErrors (snd ?l) = 0"
    using loop_status[OF regular_wan, of e cfg fuel 0 0] ne
    by (cases "fst ?l") simp_all
  with ne show ?thesis by (simp add: retryJoinWan_unfold[OF False])
qed

lemma lanIteration_failing_zero:
  assumes "RetryMaxAttempts cfg = 0"
    "lanServers e addrs disco i = [] \<or> snd (JoinLAN e i (lanServers e addrs disco i)) \<noteq> None"
  shows "lanIteration e cfg addrs disco i a =
     ((snd (lanDiscover e disco i)
         @ (if lanServers e addrs disco i = [] then []
            else [JoinLANCall (lanServers e addrs disco i)]))
        @ fst (afterFailure 0 (RetryInterval cfg)
                 ''agent: max join retry exhausted, exiting''
                 ''[WARN] agent: Join failed: %v, retrying in %v''
                 a (if lanServers e addrs disco i = [] then Some ''No servers to join''
                    else snd (fst (lanDiscover e disco i)))),
      snd (afterFailure 0 (RetryInterval cfg)
                 ''agent: max join retry exhausted, exiting''
                 ''[WARN] agent: Join failed: %v, retrying in %v''
                 a (if lanServers e addrs disco i = [] then Some ''No servers to join''
                    else snd (fst (lanDiscover e disco i)))))"
  using assms(2) by (auto simp add: lanIteration_cases assms(1))

lemma retryJoin_zero_retries:
  assumes z: "RetryMaxAttempts cfg = 0" and ne: "RetryJoin cfg \<noteq> []"
    and s: "splitAddrs (RetryJoin cfg) ([], []) = (addrs, disco)"
    and fail: "\<And>i. i < fuel \<Longrightarrow> lanServers e addrs disco i = []
                 \<or> snd (JoinLAN e i (lanServers e addrs disco i)) \<noteq> None"
  shows "fst (retryJoin fuel e cfg) = Retrying \<and> sleeps (snd (retryJoin fuel e cfg)) = fuel"
proof -
  let ?pre = "\<lambda>i. snd (lanDiscover e disco i)
         @ (if lanServers e addrs disco i = [] then []
            else [JoinLANCall (lanServers e addrs disco i)])"
  let ?er = "\<lambda>i. if lanServers e addrs disco i = [] then Some ''No servers to join''
                    else snd (fst (lanDiscover e disco i))"
  have body: "\<And>j a. j < fuel \<Longrightarrow> lanIteration e cfg addrs disco (0 + j) a =
       (?pre (0 + j) @ fst (afterFailure 0 (RetryInterval cfg)
                 ''agent: max join retry exhausted, exiting''
                 ''[WARN] agent: Join failed: %v, retrying in %v'' a (?er (0 + j))),
        snd (afterFailure 0 (RetryInterval cfg)
                 ''agent: max join retry exhausted, exiting''
                 ''[WARN] agent: Join failed: %v, retrying in %v'' a (?er (0 + j))))"
    using lanIteration_failing_zero[OF z fail] by simp
  have pre: "\<And>j. sleeps (?pre j) = 0"
    by (simp add: sleeps_def lanDiscover_counts)
  from loop_retries_forever[of fuel "lanIteration e cfg addrs disco" 0 ?pre, OF body pre, of 0]
  show ?thesis by (simp add: retryJoin_unfold[OF ne s])
qed

lemma retryJoinWan_zero_retries:
  assumes z: "RetryMaxAttemptsWan cfg = 0" and ne: "RetryJoinWan cfg \<noteq> []"
    and fail: "\<And>i. i < fuel \<Longrightarrow> snd (JoinWAN e i (RetryJoinWan cfg)) \<noteq> None"
  shows "fst (retryJoinWan fuel e cfg) = Retrying
         \<and> sleeps (snd (retryJoinWan fuel e cfg)) = fuel"
proof -
  let ?pre = "\<lambda>i::nat. [JoinWANCall (RetryJoinWan cfg) :: 'a word event]"
  let ?er = "\<lambda>i. snd (JoinWAN e i (RetryJoinWan cfg))"
  have body: "\<And>j a. j < fuel \<Longrightarrow> wanIteration e cfg (0 + j) a =
       (?pre (0 + j) @ fst (afterFailure 0 (RetryIntervalWan cfg)
                 ''agent: max join -wan retry exhausted, exiting''
                 ''[WARN] agent: Join -wan failed: %v, retrying in %v'' a (?er (0 + j))),
        snd (afterFailure 0 (RetryIntervalWan cfg)
                 ''agent: max join -wan retry exhausted, exiting''
                 ''[WARN] agent: Join -wan failed: %v, retrying in %v'' a (?er (0 + j))))"
    using wanIteration_always_failing[OF fail, of _ ] z by simp
  have pre: "\<And>j. sleeps (?pre j) = 0"
    by (simp add: sleeps_def)
  from loop_retries_forever[of fuel "wanIteration e cfg" 0 ?pre, OF body pre, of 0]
  show ?thesis by (simp add: retryJoinWan_unfold[OF ne])
qed

lemma started_run_facts:
  fixes run :: "nat \<Rightarrow> state \<times> 'i event list"
  assumes r: "regular okfmt exmsg iv body"
    and run: "\<And>f. run f = (fst (loop body f 0 a0), Printf hdr [] # snd (loop body f 0 a0))"
  shows "terminalErrors (snd (run fuel)) \<le> 1"
    and "fst (run fuel) \<noteq> Retrying \<Longrightarrow> run (fuel + d) = run fuel"
    and "fst (run fuel) = Succeeded \<Longrightarrow>
           terminalErrors (snd (run fuel)) = 0
           \<and> (\<exists>n. last (snd (run fuel)) = Printf okfmt [IntArg n])"
    and "fst (run fuel) = Exhausted \<Longrightarrow>
           terminalErrors (snd (run fuel)) = 1 \<and> last (snd (run fuel)) = ChanSend exmsg"
    and "fst (run (Suc k)) = Succeeded \<and> fst (run k) = Retrying \<Longrightarrow>
           sleeps (snd (run (Suc k))) = k"
proof -
  show "terminalErrors (snd (run fuel)) \<le> 1"
    using loop_sends_le_1[OF r, of fuel 0 a0] by (simp add: run)
  show "run (fuel + d) = run fuel" if "fst (run fuel) \<noteq> Retrying"
  proof -
    from that have "fst (loop body fuel 0 a0) \<noteq> Retrying" by (simp add: run)
    from loop_stable[OF this, of d] show ?thesis by (simp add: run)
  qed
  show "terminalErrors (snd (run fuel)) = 0
        \<and> (\<exists>n. last (snd (run fuel)) = Printf okfmt [IntArg n])"
    if "fst (run fuel) = Succeeded"
  proof -
    from that have "fst (loop body fuel 0 a0) = Succeeded" by (simp add: run)
    from loop_status(3)[OF r this] show ?thesis by (simp add: run)
  qed
  show "terminalErrors (snd (run fuel)) = 1 \<and> last (snd (run fuel)) = ChanSend exmsg"
    if "fst (run fuel) = Exhausted"
  proof -
    from that have "fst (loop body fuel 0 a0) = Exhausted" by (simp add: run)
    from loop_status(4)[OF r this] show ?thesis by (simp add: run)
  qed
  show "sleeps (snd (run (Suc k))) = k"
    if "fst (run (Suc k)) = Succeeded \<and> fst (run k) = Retrying"
  proof -
    from that have "fst (loop body (Suc k) 0 a0) = Succeeded" "fst (loop body k 0 a0) = Retrying"
      by (simp_all add: run del: loop.simps)
    from loop_success_sleeps[OF r this] show ?thesis by (simp add: run del: loop.simps)
  qed
qed

lemma retryJoin_facts:
  "terminalErrors (snd (retryJoin fuel e cfg)) \<le> 1"
  "fst (retryJoin fuel e cfg) \<noteq> Retrying \<Longrightarrow> retryJoin (fuel + d) e cfg = retryJoin fuel e cfg"
  "fst (retryJoin fuel e cfg) = Succeeded \<Longrightarrow>
     terminalErrors (snd (retryJoin fuel e cfg)) = 0
     \<and> (\<exists>n. last (snd (retryJoin fuel e cfg)) =
              Printf ''[INFO] agent: Join completed. Synced with %d initial agents'' [IntArg n])"
  "fst (retryJoin fuel e cfg) = Exhausted \<Longrightarrow>
     terminalErrors (snd (retryJoin fuel e cfg)) = 1
     \<and> last (snd (retryJoin fuel e cfg)) = ChanSend ''agent: max join retry exhausted, exiting''"
  "fst (retryJoin (Suc k) e cfg) = Succeeded \<and> fst (retryJoin k e cfg) = Retrying \<Longrightarrow>
     sleeps (snd (retryJoin (Suc k) e cfg)) = k"
proof -
  obtain addrs disco where s: "splitAddrs (RetryJoin cfg) ([], []) = (addrs, disco)"
    by (cases "splitAddrs (RetryJoin cfg) ([], [])")
  have empty: "\<And>f. RetryJoin cfg = [] \<Longrightarrow> retryJoin f e cfg = (NotStarted, [])"
    by (simp add: retryJoin_def)
  note started = started_run_facts[OF regular_lan, of "\<lambda>f. retryJoin f e cfg" e cfg addrs disco 0
      "''[INFO] agent: Joining cluster...''", OF retryJoin_unfold[OF _ s]]
  show "terminalErrors (snd (retryJoin fuel e cfg)) \<le> 1"
    using empty started(1) by (cases "RetryJoin cfg = []") (simp_all add: terminalErrors_def)
  show "fst (retryJoin fuel e cfg) \<noteq> Retrying \<Longrightarrow> retryJoin (fuel + d) e cfg = retryJoin fuel e cfg"
    using empty started(2) by (cases "RetryJoin cfg = []") simp_all
  show "fst (retryJoin fuel e cfg) = Succeeded \<Longrightarrow>
     terminalErrors (snd (retryJoin fuel e cfg)) = 0
     \<and> (\<exists>n. last (snd (retryJoin fuel e cfg)) =
              Printf ''[INFO] agent: Join completed. Synced with %d initial agents'' [IntArg n])"
    using empty started(3) by (cases "RetryJoin cfg = []") simp_all
  show "fst (retryJoin fuel e cfg) = Exhausted \<Longrightarrow>
     terminalErrors (snd (retryJoin fuel e cfg)) = 1
     \<and> last (snd (retryJoin fuel e cfg)) = ChanSend ''agent: max join retry exhausted, exiting''"
    using empty started(4) by (cases "RetryJoin cfg = []") simp_all
  show "fst (retryJoin (Suc k) e cfg) = Succeeded \<and> fst (retryJoin k e cfg) = Retrying \<Longrightarrow>
     sleeps (snd (retryJoin (Suc k) e cfg)) = k"
    using empty started(5) by (cases "RetryJoin cfg = []") simp_all
qed

lemma retryJoinWan_facts:
  "terminalErrors (snd (retryJoinWan fuel e cfg)) \<le> 1"
  "fst (retryJoinWan fuel e cfg) \<noteq> Retrying \<Longrightarrow>
     retryJoinWan (fuel + d) e cfg = retryJoinWan fuel e cfg"
  "fst (retryJoinWan fuel e cfg) = Succeeded \<Longrightarrow>
     terminalErrors (snd (retryJoinWan fuel e cfg)) = 0
     \<and> (\<exists>n. last (snd (retryJoinWan fuel e cfg)) =
              Printf ''[INFO] agent: Join -wan completed. Synced with %d initial agents''
                [IntArg n])"
  "fst (retryJoinWan fuel e cfg) = Exhausted \<Longrightarrow>
     terminalErrors (snd (retryJoinWan fuel e cfg)) = 1
     \<and> last (snd (retryJoinWan fuel e cfg)) =
         ChanSend ''agent: max join -wan retry exhausted, exiting''"
  "fst (retryJoinWan (Suc k) e cfg) = Succeeded \<and> fst (retryJoinWan k e cfg) = Retrying \<Longrightarrow>
     sleeps (snd (retryJoinWan (Suc k) e cfg)) = k"
proof -
  have empty: "\<And>f. RetryJoinWan cfg = [] \<Longrightarrow> retryJoinWan f e cfg = (NotStarted, [])"
    by (simp add: retryJoinWan_def)
  note started = started_run_facts[OF regular_wan, of "\<lambda>f. retryJoinWan f e cfg" e cfg 0
      "''[INFO] agent: Joining WAN cluster...''", OF retryJoinWan_unfold]
  show "terminalErrors (snd (retryJoinWan fuel e cfg)) \<le> 1"
    using empty started(1) by (cases "RetryJoinWan cfg = []") (simp_all add: terminalErrors_def)
  show "fst (retryJoinWan fuel e cfg) \<noteq> Retrying \<Longrightarrow>
     retryJoinWan (fuel + d) e cfg = retryJoinWan fuel e cfg"
    using empty started(2) by (cases "RetryJoinWan cfg = []") simp_all
  show "fst (retryJoinWan fuel e cfg) = Succeeded \<Longrightarrow>
     terminalErrors (snd (retryJoinWan fuel e cfg)) = 0
     \<and> (\<exists>n. last (snd (retryJoinWan fuel e cfg)) =
              Printf ''[INFO] agent: Join -wan completed. Synced with %d initial agents''
                [IntArg n])"
    using empty started(3) by (cases "RetryJoinWan cfg = []") simp_all
  show "fst (retryJoinWan fuel e cfg) = Exhausted \<Longrightarrow>
     terminalErrors (snd (retryJoinWan fuel e cfg)) = 1
     \<and> last (snd (retryJoinWan fuel e cfg)) =
         ChanSend ''agent: max join -wan retry exhausted, exiting''"
    using empty started(4) by (cases "RetryJoinWan cfg = []") simp_all
  show "fst (retryJoinWan (Suc k) e cfg) = Succeeded \<and> fst (retryJoinWan k e cfg) = Retrying \<Longrightarrow>
     sleeps (snd (retryJoinWan (Suc k) e cfg)) = k"
    using empty started(5) by (cases "RetryJoinWan cfg = []") simp_all
qed

subsection \<open>No maximum\<close>

text \<open>
  C6. With a maximum of 0 attempts no failure ever makes a controller send the terminal
  error or stop: whatever discovery and the join operations answer and however long the
  controller is observed, it is not exhausted and its trace has no channel send, so it
  has either succeeded or is still retrying (or, by C9, never started). And for any
  number of consecutive failures (iterations in which the list for the join is empty or
  the join returns an error, with or without a discovery error) the controller is still
  retrying after that many iterations, having slept once after each of them. This holds
  for the LAN and for the WAN controller.
\<close>

theorem zero_max_attempts_retries_forever:
  "(RetryMaxAttempts cfg = 0 \<longrightarrow>
      fst (retryJoin fuel e cfg) \<noteq> Exhausted
      \<and> terminalErrors (snd (retryJoin fuel e cfg)) = 0)
   \<and> (RetryMaxAttempts cfg = 0 \<and> RetryJoin cfg \<noteq> []
      \<and> splitAddrs (RetryJoin cfg) ([], []) = (addrs, disco)
      \<and> (\<forall>i<fuel. lanServers e addrs disco i = []
                   \<or> snd (JoinLAN e i (lanServers e addrs disco i)) \<noteq> None)
      \<longrightarrow>
      fst (retryJoin fuel e cfg) = Retrying
      \<and> sleeps (snd (retryJoin fuel e cfg)) = fuel)
   \<and> (RetryMaxAttemptsWan cfg = 0 \<longrightarrow>
      fst (retryJoinWan fuel e cfg) \<noteq> Exhausted
      \<and> terminalErrors (snd (retryJoinWan fuel e cfg)) = 0)
   \<and> (RetryMaxAttemptsWan cfg = 0 \<and> RetryJoinWan cfg \<noteq> []
      \<and> (\<forall>i<fuel. snd (JoinWAN e i (RetryJoinWan cfg)) \<noteq> None)
      \<longrightarrow>
      fst (retryJoinWan fuel e cfg) = Retrying
      \<and> sleeps (snd (retryJoinWan fuel e cfg)) = fuel)"
proof (intro conjI impI)
  assume "RetryMaxAttempts cfg = 0"
  then show "fst (retryJoin fuel e cfg) \<noteq> Exhausted"
    "terminalErrors (snd (retryJoin fuel e cfg)) = 0"
    by (simp_all add: retryJoin_zero_no_terminal)
next
  assume "RetryMaxAttemptsWan cfg = 0"
  then show "fst (retryJoinWan fuel e cfg) \<noteq> Exhausted"
    "terminalErrors (snd (retryJoinWan fuel e cfg)) = 0"
    by (simp_all add: retryJoinWan_zero_no_terminal)
next
  assume a: "RetryMaxAttempts cfg = 0 \<and> RetryJoin cfg \<noteq> []
      \<and> splitAddrs (RetryJoin cfg) ([], []) = (addrs, disco)
      \<and> (\<forall>i<fuel. lanServers e addrs disco i = []
                   \<or> snd (JoinLAN e i (lanServers e addrs disco i)) \<noteq> None)"
  then have "fst (retryJoin fuel e cfg) = Retrying
      \<and> sleeps (snd (retryJoin fuel e cfg)) = fuel"
    by (intro retryJoin_zero_retries[of cfg addrs disco fuel e]) blast+
  then show "fst (retryJoin fuel e cfg) = Retrying"
    "sleeps (snd (retryJoin fuel e cfg)) = fuel" by simp_all
next
  assume a: "RetryMaxAttemptsWan cfg = 0 \<and> RetryJoinWan cfg \<noteq> []
      \<and> (\<forall>i<fuel. snd (JoinWAN e i (RetryJoinWan cfg)) \<noteq> None)"
  then have "fst (retryJoinWan fuel e cfg) = Retrying
      \<and> sleeps (snd (retryJoinWan fuel e cfg)) = fuel"
    by (intro retryJoinWan_zero_retries[of cfg fuel e]) blast+
  then show "fst (retryJoinWan fuel e cfg) = Retrying"
    "sleeps (snd (retryJoinWan fuel e cfg)) = fuel" by simp_all
qed

theorem zero_max_attempts_retries_forever_witness:
  "fst (retryJoin 5 (refusing ([], Some ''discover-mock: timeout''))
         (sampleConfig [''provider=mock key=value'', ''10.0.0.1''] [''10.1.0.1''] 0)) = Retrying
   \<and> sleeps (snd (retryJoin 5 (refusing ([], Some ''discover-mock: timeout''))
         (sampleConfig [''provider=mock key=value'', ''10.0.0.1''] [''10.1.0.1''] 0))) = 5
   \<and> terminalErrors (snd (retryJoin 5 (refusing ([], Some ''discover-mock: timeout''))
         (sampleConfig [''provider=mock key=value'', ''10.0.0.1''] [''10.1.0.1''] 0))) = 0
   \<and> fst (retryJoinWan 5 (refusing ([], Some ''discover-mock: timeout''))
         (sampleConfig [''provider=mock key=value'', ''10.0.0.1''] [''10.1.0.1''] 0)) = Retrying
   \<and> sleeps (snd (retryJoinWan 5 (refusing ([], Some ''discover-mock: timeout''))
         (sampleConfig [''provider=mock key=value'', ''10.0.0.1''] [''10.1.0.1''] 0))) = 5
   \<and> terminalErrors (snd (retryJoinWan 5 (refusing ([], Some ''discover-mock: timeout''))
         (sampleConfig [''provider=mock key=value'', ''10.0.0.1''] [''10.1.0.1''] 0))) = 0"
proof -
  let ?e = "refusing ([], Some ''discover-mock: timeout'')"
  let ?cfg = "sampleConfig [''provider=mock key=value'', ''10.0.0.1''] [''10.1.0.1''] 0"
  have z: "RetryMaxAttempts ?cfg = 0" "RetryMaxAttemptsWan ?cfg = 0"
    by (simp_all add: sampleConfig_def)
  have lan: "RetryMaxAttempts ?cfg = 0 \<and> RetryJoin ?cfg \<noteq> []
      \<and> splitAddrs (RetryJoin ?cfg) ([], []) = ([''10.0.0.1''], ''provider=mock key=value'')
      \<and> (\<forall>i<5. lanServers ?e [''10.0.0.1''] ''provider=mock key=value'' i = []
                \<or> snd (JoinLAN ?e i (lanServers ?e [''10.0.0.1''] ''provider=mock key=value'' i))
                    \<noteq> None)"
    by (simp add: sampleConfig_def refusing_def)
  have wan: "RetryMaxAttemptsWan ?cfg = 0 \<and> RetryJoinWan ?cfg \<noteq> []
      \<and> (\<forall>i<5. snd (JoinWAN ?e i (RetryJoinWan ?cfg)) \<noteq> None)"
    by (simp add: sampleConfig_def refusing_def)
  from zero_max_attempts_retries_forever
         [of ?cfg 5 ?e "[''10.0.0.1'']" "''provider=mock key=value''"] z lan wan
  show ?thesis by simp
qed

subsection \<open>At most one terminal error, and nothing after the end\<close>

text \<open>
  C7. Every run of a controller sends at most one terminal error on the channel. Once
  the controller has succeeded or is exhausted (or has returned on an empty list), a
  longer observation shows the same state and the same trace: there is no further join
  attempt, sleep or log line, nor any other event. A controller that has succeeded has
  sent no terminal error and the last thing it did is log the line that reports the
  join; a controller that is exhausted has sent exactly one terminal error, and the send
  is the last thing it did. In particular, when the join succeeds in iteration \<open>k + 1\<close>
  (the controller was still retrying after \<open>k\<close> iterations), the run has exactly \<open>k\<close>
  sleeps, one after each earlier failure and none after the success. This holds for the
  LAN and for the WAN controller.
\<close>

theorem at_most_one_terminal_error_then_silence:
  "terminalErrors (snd (retryJoin fuel e cfg)) \<le> 1
   \<and> (fst (retryJoin fuel e cfg) \<noteq> Retrying \<longrightarrow>
        retryJoin (fuel + d) e cfg = retryJoin fuel e cfg)
   \<and> (fst (retryJoin fuel e cfg) = Succeeded \<longrightarrow>
        terminalErrors (snd (retryJoin fuel e cfg)) = 0
        \<and> (\<exists>n. last (snd (retryJoin fuel e cfg)) =
              Printf ''[INFO] agent: Join completed. Synced with %d initial agents'' [IntArg n]))
   \<and> (fst (retryJoin fuel e cfg) = Exhausted \<longrightarrow>
        terminalErrors (snd (retryJoin fuel e cfg)) = 1
        \<and> last (snd (retryJoin fuel e cfg)) =
            ChanSend ''agent: max join retry exhausted, exiting'')
   \<and> (fst (retryJoin (Suc k) e cfg) = Succeeded \<and> fst (retryJoin k e cfg) = Retrying \<longrightarrow>
        sleeps (snd (retryJoin (Suc k) e cfg)) = k)
   \<and> terminalErrors (snd (retryJoinWan fuel e cfg)) \<le> 1
   \<and> (fst (retryJoinWan fuel e cfg) \<noteq> Retrying \<longrightarrow>
        retryJoinWan (fuel + d) e cfg = retryJoinWan fuel e cfg)
   \<and> (fst (retryJoinWan fuel e cfg) = Succeeded \<longrightarrow>
        terminalErrors (snd (retryJoinWan fuel e cfg)) = 0
        \<and> (\<exists>n. last (snd (retryJoinWan fuel e cfg)) =
              Printf ''[INFO] agent: Join -wan completed. Synced with %d initial agents''
                [IntArg n]))
   \<and> (fst (retryJoinWan fuel e cfg) = Exhausted \<longrightarrow>
        terminalErrors (snd (retryJoinWan fuel e cfg)) = 1
        \<and> last (snd (retryJoinWan fuel e cfg)) =
            ChanSend ''agent: max join -wan retry exhausted, exiting'')
   \<and> (fst (retryJoinWan (Suc k) e cfg) = Succeeded \<and> fst (retryJoinWan k e cfg) = Retrying
        \<longrightarrow> sleeps (snd (retryJoinWan (Suc k) e cfg)) = k)"
  using retryJoin_facts[of fuel e cfg] retryJoin_facts(5)[of k e cfg]
    retryJoin_facts(2)[of fuel e cfg d]
    retryJoinWan_facts[of fuel e cfg] retryJoinWan_facts(5)[of k e cfg]
    retryJoinWan_facts(2)[of fuel e cfg d]
  by (intro conjI impI) blast+

theorem at_most_one_terminal_error_then_silence_witness:
  "fst (retryJoin 3 (acceptingFrom 2 ([], None)) (sampleConfig [''10.0.0.1''] [''10.1.0.1''] 5))
     = Succeeded
   \<and> fst (retryJoin 2 (acceptingFrom 2 ([], None)) (sampleConfig [''10.0.0.1''] [''10.1.0.1''] 5))
     = Retrying
   \<and> sleeps (snd (retryJoin 3 (acceptingFrom 2 ([], None))
                      (sampleConfig [''10.0.0.1''] [''10.1.0.1''] 5))) = 2
   \<and> terminalErrors (snd (retryJoin 3 (acceptingFrom 2 ([], None))
                      (sampleConfig [''10.0.0.1''] [''10.1.0.1''] 5))) = 0
   \<and> retryJoin 7 (acceptingFrom 2 ([], None)) (sampleConfig [''10.0.0.1''] [''10.1.0.1''] 5)
     = retryJoin 3 (acceptingFrom 2 ([], None)) (sampleConfig [''10.0.0.1''] [''10.1.0.1''] 5)
   \<and> fst (retryJoinWan 3 (acceptingFrom 2 ([], None))
            (sampleConfig [''10.0.0.1''] [''10.1.0.1''] 5)) = Succeeded
   \<and> fst (retryJoinWan 2 (acceptingFrom 2 ([], None))
            (sampleConfig [''10.0.0.1''] [''10.1.0.1''] 5)) = Retrying
   \<and> sleeps (snd (retryJoinWan 3 (acceptingFrom 2 ([], None))
                      (sampleConfig [''10.0.0.1''] [''10.1.0.1''] 5))) = 2
   \<and> terminalErrors (snd (retryJoinWan 3 (acceptingFrom 2 ([], None))
                      (sampleConfig [''10.0.0.1''] [''10.1.0.1''] 5))) = 0
   \<and> retryJoinWan 7 (acceptingFrom 2 ([], None)) (sampleConfig [''10.0.0.1''] [''10.1.0.1''] 5)
     = retryJoinWan 3 (acceptingFrom 2 ([], None)) (sampleConfig [''10.0.0.1''] [''10.1.0.1''] 5)
   \<and> fst (retryJoin 3 (refusing ([], None)) (sampleConfig [''10.0.0.1''] [''10.1.0.1''] 1))
     = Exhausted
   \<and> terminalErrors (snd (retryJoin 3 (refusing ([], None))
                      (sampleConfig [''10.0.0.1''] [''10.1.0.1''] 1))) = 1
   \<and> retryJoin 7 (refusing ([], None)) (sampleConfig [''10.0.0.1''] [''10.1.0.1''] 1)
     = retryJoin 3 (refusing ([], None)) (sampleConfig [''10.0.0.1''] [''10.1.0.1''] 1)
   \<and> fst (retryJoinWan 3 (refusing ([], None)) (sampleConfig [''10.0.0.1''] [''10.1.0.1''] 1))
     = Exhausted
   \<and> terminalErrors (snd (retryJoinWan 3 (refusing ([], None))
                      (sampleConfig [''10.0.0.1''] [''10.1.0.1''] 1))) = 1
   \<and> retryJoinWan 7 (refusing ([], None)) (sampleConfig [''10.0.0.1''] [''10.1.0.1''] 1)
     = retryJoinWan 3 (refusing ([], None)) (sampleConfig [''10.0.0.1''] [''10.1.0.1''] 1)"
proof -
  let ?a = "acceptingFrom 2 ([], None)"
  let ?r = "refusing ([], None)"
  let ?c5 = "sampleConfig [''10.0.0.1''] [''10.1.0.1''] 5"
  let ?c1 = "sampleConfig [''10.0.0.1''] [''10.1.0.1''] 1"
  have s: "fst (retryJoin 3 ?a ?c5) = Succeeded" "fst (retryJoin 2 ?a ?c5) = Retrying"
    "fst (retryJoinWan 3 ?a ?c5) = Succeeded" "fst (retryJoinWan 2 ?a ?c5) = Retrying"
    by code_simp+
  have x: "fst (retryJoin 3 ?r ?c1) = Exhausted" "fst (retryJoinWan 3 ?r ?c1) = Exhausted"
    by code_simp+
  have n: "Suc 2 = 3" "(3::nat) + 4 = 7" by simp_all
  from at_most_one_terminal_error_then_silence [of 3 ?a ?c5 4 2]
       at_most_one_terminal_error_then_silence [of 3 ?r ?c1 4 2] s x
  show ?thesis unfolding n by simp
qed

subsection \<open>The WAN controller joins the configured list\<close>

lemma loop_calls:
  assumes "\<And>i a. filter isCall (fst (body i a)) = [c]"
  shows "\<exists>m. filter isCall (snd (loop body f i a)) = replicate m c"
proof (induction f arbitrary: i a)
  case 0
  show ?case by simp
next
  case (Suc f)
  obtain evs st where b: "body i a = (evs, st)" by (cases "body i a")
  with assms[of i a] have e: "filter isCall evs = [c]" by simp
  show ?case
  proof (cases st)
    case (Return x)
    with b e have "filter isCall (snd (loop body (Suc f) i a)) = replicate 1 c" by simp
    then show ?thesis by blast
  next
    case (Continue a')
    from Suc.IH[of "Suc i" a'] obtain m
      where "filter isCall (snd (loop body f (Suc i) a')) = replicate m c" by blast
    with b e Continue have "filter isCall (snd (loop body (Suc f) i a)) = replicate (Suc m) c"
      by (simp add: loop_Continue del: loop.simps)
    then show ?thesis by blast
  qed
qed

lemma filter_isJoin_isCall: "filter isJoin (filter isCall tr) = filter isJoin tr"
proof -
  have "\<And>ev :: 'a event. isJoin ev \<Longrightarrow> isCall ev"
    by (case_tac ev) simp_all
  then have "\<And>ev :: 'a event. (isCall ev \<and> isJoin ev) = isJoin ev" by blast
  then show ?thesis by simp
qed

lemma wanIteration_calls:
  "filter isCall (fst (wanIteration e cfg i a)) = [JoinWANCall (RetryJoinWan cfg)]"
  by (simp add: wanIteration_cases afterFailure_cases)

lemma retryJoinWan_calls:
  "filter isCall (snd (retryJoinWan fuel e cfg)) =
     replicate (joinAttempts (snd (retryJoinWan fuel e cfg))) (JoinWANCall (RetryJoinWan cfg))"
proof -
  let ?tr = "snd (retryJoinWan fuel e cfg)"
  have "\<exists>m. filter isCall ?tr = replicate m (JoinWANCall (RetryJoinWan cfg))"
  proof (cases "RetryJoinWan cfg = []")
    case True
    then have "filter isCall ?tr = replicate 0 (JoinWANCall (RetryJoinWan cfg))"
      by (simp add: retryJoinWan_def)
    then show ?thesis by blast
  next
    case False
    from loop_calls[of "wanIteration e cfg", OF wanIteration_calls] False
    show ?thesis by (simp add: retryJoinWan_unfold)
  qed
  then obtain m where m: "filter isCall ?tr = replicate m (JoinWANCall (RetryJoinWan cfg))"
    by blast
  have "joinAttempts ?tr = length (filter isJoin (filter isCall ?tr))"
    by (simp only: joinAttempts_def filter_isJoin_isCall)
  also have "\<dots> = m" by (simp add: m)
  finally show ?thesis using m by simp
qed

text \<open>
  C10. The WAN controller neither splits its configured list nor calls discovery: the
  only call to the outside world in an iteration is \<open>JoinWAN\<close> with the list
  \<open>RetryJoinWan\<close> exactly as configured, so all the outside calls of a run are that same
  call, once per join attempt. An entry that contains \<open>provider=\<close> is handed to \<open>JoinWAN\<close>
  as an address like any other, as the run with the list
  \<open>["provider=mock key=value", "10.1.0.1"]\<close> shows.
\<close>

theorem wan_joins_configured_list_verbatim:
  "filter isCall (fst (wanIteration e cfg i attempt)) = [JoinWANCall (RetryJoinWan cfg)]
   \<and> filter isCall (snd (retryJoinWan fuel e cfg)) =
       replicate (joinAttempts (snd (retryJoinWan fuel e cfg)))
         (JoinWANCall (RetryJoinWan cfg))
   \<and> retryJoinWan 2 (acceptingFrom 1 ([''10.9.9.9''], None))
        (sampleConfig [] [''provider=mock key=value'', ''10.1.0.1''] 0) =
       (Succeeded,
        [Printf ''[INFO] agent: Joining WAN cluster...'' [],
         JoinWANCall [''provider=mock key=value'', ''10.1.0.1''],
         Printf ''[WARN] agent: Join -wan failed: %v, retrying in %v''
           [ErrArg (Some ''connection refused''), DurArg 30],
         Sleep 30,
         JoinWANCall [''provider=mock key=value'', ''10.1.0.1''],
         Printf ''[INFO] agent: Join -wan completed. Synced with %d initial agents''
           [IntArg 3]])"
proof (intro conjI)
  show "filter isCall (fst (wanIteration e cfg i attempt)) = [JoinWANCall (RetryJoinWan cfg)]"
    by (rule wanIteration_calls)
  show "filter isCall (snd (retryJoinWan fuel e cfg)) =
       replicate (joinAttempts (snd (retryJoinWan fuel e cfg)))
         (JoinWANCall (RetryJoinWan cfg))"
    by (rule retryJoinWan_calls)
  show "retryJoinWan 2 (acceptingFrom 1 ([''10.9.9.9''], None))
        (sampleConfig [] [''provider=mock key=value'', ''10.1.0.1''] 0) =
       (Succeeded,
        [Printf ''[INFO] agent: Joining WAN cluster...'' [],
         JoinWANCall [''provider=mock key=value'', ''10.1.0.1''],
         Printf ''[WARN] agent: Join -wan failed: %v, retrying in %v''
           [ErrArg (Some ''connection refused''), DurArg 30],
         Sleep 30,
         JoinWANCall [''provider=mock key=value'', ''10.1.0.1''],
         Printf ''[INFO] agent: Join -wan completed. Synced with %d initial agents''
           [IntArg 3]])"
    by code_simp
qed

theorem wan_joins_configured_list_verbatim_witness:
  "filter isCall (snd (retryJoinWan 4 (refusing ([''10.9.9.9''], None))
        (sampleConfig [] [''provider=mock key=value'', ''10.1.0.1''] 2))) =
     [JoinWANCall [''provider=mock key=value'', ''10.1.0.1''],
      JoinWANCall [''provider=mock key=value'', ''10.1.0.1''],
      JoinWANCall [''provider=mock key=value'', ''10.1.0.1'']]"
proof -
  let ?e = "refusing ([''10.9.9.9''], None)"
  let ?cfg = "sampleConfig [] [''provider=mock key=value'', ''10.1.0.1''] 2"
  have j: "joinAttempts (snd (retryJoinWan 4 ?e ?cfg)) = 3" by code_simp
  have c: "RetryJoinWan ?cfg = [''provider=mock key=value'', ''10.1.0.1'']"
    by (simp add: sampleConfig_def)
  from wan_joins_configured_list_verbatim [of ?e ?cfg 0 0 4]
  have "filter isCall (snd (retryJoinWan 4 ?e ?cfg)) =
       replicate (joinAttempts (snd (retryJoinWan 4 ?e ?cfg))) (JoinWANCall (RetryJoinWan ?cfg))"
    by blast
  then show ?thesis unfolding j c by (simp add: numeral_3_eq_3)
qed

subsection \<open>The error in the LAN warning\<close>

text \<open>
  C8 (does not hold for the LAN controller). The claim: on every failed attempt that
  does not exhaust the attempts, the warning carries the error that made the attempt
  fail (the join error, or "No servers to join") and the configured interval. The
  interval is there, and so is "No servers to join" (see C5), but the error of \<open>JoinLAN\<close>
  is assigned to a variable \<open>err\<close> declared inside the \<open>else\<close> block and is lost: the
  warning prints the outer \<open>err\<close>. With a refused join and no discovery it prints
  \<open>nil\<close>; with a refused join after a failed discovery it prints the discovery error.
  The WAN controller, whose \<open>err\<close> is the one \<open>JoinWAN\<close> returned, prints the join
  error.
\<close>

theorem lan_warning_carries_no_join_error:
  "snd (JoinLAN (refusing ([], Some ''discover-mock: timeout'')) 0 [''10.0.0.1''])
     = Some ''connection refused''
   \<and> retryJoin 1 (refusing ([], Some ''discover-mock: timeout''))
        (sampleConfig [''10.0.0.1''] [''10.1.0.1''] 0) =
       (Retrying,
        [Printf ''[INFO] agent: Joining cluster...'' [],
         JoinLANCall [''10.0.0.1''],
         Printf ''[WARN] agent: Join failed: %v, retrying in %v'' [ErrArg None, DurArg 30],
         Sleep 30])
   \<and> retryJoin 1 (refusing ([], Some ''discover-mock: timeout''))
        (sampleConfig [''provider=mock key=value'', ''10.0.0.1''] [''10.1.0.1''] 0) =
       (Retrying,
        [Printf ''[INFO] agent: Joining cluster...'' [],
         DiscoverCall ''provider=mock key=value'',
         Printf ''[ERR] agent: %s'' [ErrArg (Some ''discover-mock: timeout'')],
         Printf ''[ERR] agent: Discovered servers: %v'' [StrsArg []],
         JoinLANCall [''10.0.0.1''],
         Printf ''[WARN] agent: Join failed: %v, retrying in %v''
           [ErrArg (Some ''discover-mock: timeout''), DurArg 30],
         Sleep 30])
   \<and> retryJoinWan 1 (refusing ([], Some ''discover-mock: timeout''))
        (sampleConfig [''10.0.0.1''] [''10.1.0.1''] 0) =
       (Retrying,
        [Printf ''[INFO] agent: Joining WAN cluster...'' [],
         JoinWANCall [''10.1.0.1''],
         Printf ''[WARN] agent: Join -wan failed: %v, retrying in %v''
           [ErrArg (Some ''connection refused''), DurArg 30],
         Sleep 30])"
  by code_simp

end
